theory Spec2Isabelle
  imports Complex_Main "HOL-Library.Sublist"
begin

section \<open>JavaScript values used by the SDK\<close>

text \<open>
  A thrown value is either an instance of \<^verbatim>\<open>Error\<close> carrying its message, or some other
  value. Both \<^verbatim>\<open>catch\<close> blocks of the SDK distinguish exactly these two cases
  (\<^verbatim>\<open>error instanceof Error ? error.message : fallback\<close>).
\<close>

datatype js_thrown = JsError string | JsOther

definition caught_message :: "js_thrown \<Rightarrow> string \<Rightarrow> string" where
  "caught_message e fallback = (case e of JsError m \<Rightarrow> m | JsOther \<Rightarrow> fallback)"

text \<open>
  \<^verbatim>\<open>a || b\<close> on an optional string: the empty string and \<^verbatim>\<open>undefined\<close> are falsy.
\<close>

definition or_else :: "string option \<Rightarrow> string \<Rightarrow> string" where
  "or_else a b = (case a of None \<Rightarrow> b | Some s \<Rightarrow> if s = [] then b else s)"

text \<open>
  A template literal prints an absent value as the text \<^verbatim>\<open>undefined\<close>.
\<close>

definition template :: "string option \<Rightarrow> string" where
  "template a = (case a of None \<Rightarrow> ''undefined'' | Some s \<Rightarrow> s)"


text \<open>Decimal rendering of an integer, as \<^verbatim>\<open>Number.prototype.toString\<close> gives it.\<close>

definition digit :: "nat \<Rightarrow> char" where
  "digit n = ''0123456789'' ! (n mod 10)"

function string_of_nat :: "nat \<Rightarrow> string" where
  "string_of_nat n = (if n < 10 then [digit n] else string_of_nat (n div 10) @ [digit n])"
  by pat_completeness auto
termination
  by (relation "measure id") auto

definition string_of_int :: "int \<Rightarrow> string" where
  "string_of_int i = (if i < 0 then CHR ''-'' # string_of_nat (nat (- i)) else string_of_nat (nat i))"

text \<open>
  A JavaScript number is an IEEE double: not a number, an infinity, or a finite value,
  kept here as the rational it denotes. \<^verbatim>\<open>a < b\<close> is false whenever an operand is not a
  number.
\<close>

datatype js_number = NaN | NegInfinity | Finite rat | PosInfinity

fun js_less :: "js_number \<Rightarrow> js_number \<Rightarrow> bool" where
  "js_less (Finite x) (Finite y) = (x < y)"
| "js_less (Finite x) PosInfinity = True"
| "js_less NegInfinity (Finite y) = True"
| "js_less NegInfinity PosInfinity = True"
| "js_less a b = False"

text \<open>
  Integers held in a double. Below \<^verbatim>\<open>2^53\<close> every integer is a double; from there on the
  doubles are the multiples of a power of two, \<^verbatim>\<open>ulp\<close>, that doubles with every binade.
  \<^verbatim>\<open>round_double\<close> is the double nearest to an integer, a tie going to the even
  significand, as the arithmetic of the language rounds; \<^verbatim>\<open>x--\<close> on an integer-valued
  double \<^verbatim>\<open>x\<close> stores \<^verbatim>\<open>round_double (x - 1)\<close>. (The magnitudes are below the largest
  double, as those of doubles are.)
\<close>

function ulp :: "nat \<Rightarrow> nat" where
  "ulp a = (if a < 2 ^ 53 then 1 else 2 * ulp (a div 2))"
  by pat_completeness auto
termination
  by (relation "measure id") auto

declare ulp.simps [simp del]

definition round_double :: "int \<Rightarrow> int" where
  "round_double n =
     (let a = nat \<bar>n\<bar>;
          u = ulp a;
          k = a div u;
          r = a mod u;
          m = (if 2 * r < u then k else if u < 2 * r then k + 1 else if even k then k else k + 1)
      in sgn n * int (m * u))"

definition js_decrement :: "int \<Rightarrow> int" where
  "js_decrement x = round_double (x - 1)"

section \<open>The shapes of types.ts\<close>

record SestraConfig =
  sestraBaseUrl :: "string option"
  serviceBaseUrl :: "string option"
  baseUrl :: "string option"
  solanaRpcEndpoint :: "string option"
  sandbox :: "bool option"
  apiKey :: "string option"

datatype PaymentStatus = Pending | Active | Expired | Revoked | Cancelled

definition PaymentStatus_text :: "PaymentStatus \<Rightarrow> string" where
  "PaymentStatus_text s =
     (case s of Pending \<Rightarrow> ''pending'' | Active \<Rightarrow> ''active'' | Expired \<Rightarrow> ''expired''
      | Revoked \<Rightarrow> ''revoked'' | Cancelled \<Rightarrow> ''cancelled'')"

text \<open>
  \<^verbatim>\<open>calls_remaining\<close> is a count: the model takes the integers, and the arithmetic on it
  is that of integer-valued doubles.
\<close>

record Session =
  token :: string
  reference_id :: string
  expires_at :: string
  calls_remaining :: int

record CreatePaymentRequest =
  policy_id :: string
  metadata :: "(string \<times> string) list option"

text \<open>
  The two response shapes the client reads fields of. Their field names repeat those of
  \<^typ>\<open>Session\<close>, so they carry a prefix here.
\<close>

record VerifyPaymentResponse =
  ver_success :: bool
  ver_reference_id :: string
  ver_status :: PaymentStatus
  ver_token :: string
  ver_expires_at :: string
  ver_calls_remaining :: int

record SimulatePaymentRequest =
  simulate_success :: "bool option"

record SimulatePaymentResponse =
  sim_success :: bool
  sim_reference_id :: string
  sim_status :: PaymentStatus
  sim_is_sandbox :: bool
  sim_token :: "string option"
  sim_expires_at :: "string option"
  sim_calls_remaining :: "int option"
  sim_message :: string

record ListPaymentsOptions =
  status :: "PaymentStatus option"
  limit :: "int option"
  offset :: "int option"

section \<open>The network as the client sees it\<close>

text \<open>
  A request body is the text \<^verbatim>\<open>JSON.stringify\<close> makes of a value; the model keeps the value.
\<close>

datatype payload =
    CreatePaymentJson CreatePaymentRequest
  | TxHashJson string
  | SimulateJson SimulatePaymentRequest
  | RawBody string

text \<open>
  The options of a request; \<^verbatim>\<open>http_method\<close> is the field \<^verbatim>\<open>method\<close>. A call that
  leaves the options out passes \<^verbatim>\<open>no_init\<close>, the empty object.
\<close>

record RequestInit =
  http_method :: "string option"
  headers :: "string \<rightharpoonup> string"
  body :: "payload option"

definition no_init :: RequestInit where
  "no_init = \<lparr>http_method = None, headers = Map.empty, body = None\<rparr>"

record http_request =
  url :: string
  init :: RequestInit

text \<open>
  What \<^verbatim>\<open>response.json()\<close> yields, seen through the type
  \<^verbatim>\<open>T & { error?: string; detail?: string }\<close> the adapter casts it to. JSON has exactly
  four falsy values; every other value is truthy and is a \<^verbatim>\<open>T\<close> with the two optional
  error-carrying fields.
\<close>

datatype 'a json = JNull | JFalse | JZero | JEmptyString | JTruthy 'a "string option" "string option"

text \<open>
  The global \<^verbatim>\<open>fetch\<close>: its promise rejects, or it resolves to a response with an
  \<^verbatim>\<open>ok\<close> flag whose \<^verbatim>\<open>json()\<close> either throws or parses.
\<close>

datatype 'a fetch_reply = Rejects js_thrown | Responds bool "js_thrown + 'a json"

type_synonym 'a network = "http_request \<Rightarrow> 'a fetch_reply"

record 'a ApiResponse =
  data :: "'a json option"
  error :: "string option"

text \<open>\<^verbatim>\<open>!response.data\<close> is false exactly on a truthy value, which is then what is returned.\<close>

fun truthy_data :: "'a json option \<Rightarrow> 'a option" where
  "truthy_data (Some (JTruthy v e d)) = Some v"
| "truthy_data _ = None"

text \<open>
  Reading a property of \<^verbatim>\<open>null\<close> throws a TypeError; its message is the engine's.
\<close>

definition null_read :: js_thrown where
  "null_read = JsError ''Cannot read properties of null''"

section \<open>client.ts\<close>

record SestraClient =
  config :: SestraConfig
  sessionToken :: "string option"
  currentSession :: "Session option"

text \<open>
  The outcome of one asynchronous method call: what it returned or threw, the client
  afterwards, and the calls it made to the global \<^verbatim>\<open>fetch\<close>, in order.
\<close>

record 'a call =
  returned :: "js_thrown + 'a"
  after :: SestraClient
  fetches :: "http_request list"

definition DEFAULT_CONFIG :: SestraConfig where
  "DEFAULT_CONFIG =
     \<lparr>sestraBaseUrl = None, serviceBaseUrl = None,
      baseUrl = Some ''https://api.sestralabs.xyz'',
      solanaRpcEndpoint = None, sandbox = Some False, apiKey = None\<rparr>"

text \<open>Object spread of two configurations: a key of the second overrides the first.\<close>

definition overriding :: "'a option \<Rightarrow> 'a option \<Rightarrow> 'a option" where
  "overriding d c = (case c of None \<Rightarrow> d | Some x \<Rightarrow> Some x)"

definition spread :: "SestraConfig \<Rightarrow> SestraConfig \<Rightarrow> SestraConfig" where
  "spread d c =
     \<lparr>sestraBaseUrl = overriding (sestraBaseUrl d) (sestraBaseUrl c),
      serviceBaseUrl = overriding (serviceBaseUrl d) (serviceBaseUrl c),
      baseUrl = overriding (baseUrl d) (baseUrl c),
      solanaRpcEndpoint = overriding (solanaRpcEndpoint d) (solanaRpcEndpoint c),
      sandbox = overriding (sandbox d) (sandbox c),
      apiKey = overriding (apiKey d) (apiKey c)\<rparr>"

definition no_config :: SestraConfig where
  "no_config =
     \<lparr>sestraBaseUrl = None, serviceBaseUrl = None, baseUrl = None,
      solanaRpcEndpoint = None, sandbox = None, apiKey = None\<rparr>"

definition new_SestraClient :: "SestraConfig \<Rightarrow> SestraClient" where
  "new_SestraClient cfg =
     \<lparr>config = spread DEFAULT_CONFIG cfg, sessionToken = None, currentSession = None\<rparr>"

definition setSession :: "SestraClient \<Rightarrow> Session \<Rightarrow> SestraClient" where
  "setSession c session = c\<lparr>sessionToken := Some (token session), currentSession := Some session\<rparr>"

definition getSession :: "SestraClient \<Rightarrow> Session option" where
  "getSession c = currentSession c"

definition clearSession :: "SestraClient \<Rightarrow> SestraClient" where
  "clearSession c = c\<lparr>sessionToken := None, currentSession := None\<rparr>"

text \<open>
  \<^verbatim>\<open>new Date(text)\<close> is a parameter: it gives the time value in milliseconds, or
  \<^verbatim>\<open>None\<close> for an Invalid Date, whose comparison with any date is false. \<^verbatim>\<open>now\<close> is the
  time value of \<^verbatim>\<open>new Date()\<close>.
\<close>

definition hasActiveSession :: "(string \<Rightarrow> int option) \<Rightarrow> int \<Rightarrow> SestraClient \<Rightarrow> bool" where
  "hasActiveSession newDate now c =
     (case currentSession c of
        None \<Rightarrow> False
      | Some s \<Rightarrow>
          (case newDate (expires_at s) of None \<Rightarrow> False | Some expiresAt \<Rightarrow> now < expiresAt)
          \<and> 0 < calls_remaining s)"

text \<open>The internal adapter every HTTP call goes through.\<close>

definition fetch :: "SestraClient \<Rightarrow> 'a network \<Rightarrow> string \<Rightarrow> RequestInit \<Rightarrow> 'a ApiResponse \<times> http_request list" where
  "fetch c net endpoint options =
     (let request =
            \<lparr>url = template (baseUrl (config c)) @ endpoint,
             init = options\<lparr>headers := [''Content-Type'' \<mapsto> ''application/json''] ++ headers options\<rparr>\<rparr>
      in (case net request of
            Rejects e \<Rightarrow> \<lparr>data = None, error = Some (caught_message e ''Network error'')\<rparr>
          | Responds ok parsed \<Rightarrow>
              (case parsed of
                 Inl e \<Rightarrow> \<lparr>data = None, error = Some (caught_message e ''Network error'')\<rparr>
               | Inr d \<Rightarrow>
                   if \<not> ok then
                     (case d of
                        JNull \<Rightarrow> \<lparr>data = None, error = Some (caught_message null_read ''Network error'')\<rparr>
                      | JTruthy v err det \<Rightarrow>
                          \<lparr>data = None, error = Some (or_else err (or_else det ''Request failed''))\<rparr>
                      | _ \<Rightarrow> \<lparr>data = None, error = Some ''Request failed''\<rparr>)
                   else \<lparr>data = Some d, error = None\<rparr>),
          [request]))"

definition createPayment_endpoint :: "SestraClient \<Rightarrow> string" where
  "createPayment_endpoint c =
     (if sandbox (config c) = Some True then ''/api/v1/sandbox/payments'' else ''/api/v1/payments'')"

definition createPayment :: "SestraClient \<Rightarrow> 'a network \<Rightarrow> CreatePaymentRequest \<Rightarrow> 'a call" where
  "createPayment c net params =
     (let endpoint = createPayment_endpoint c;
          (response, sent) =
            fetch c net endpoint
              \<lparr>http_method = Some ''POST'', headers = Map.empty, body = Some (CreatePaymentJson params)\<rparr>
      in (case truthy_data (data response) of
            None \<Rightarrow>
              \<lparr>returned = Inl (JsError (or_else (error response) ''Failed to create payment'')),
               after = c, fetches = sent\<rparr>
          | Some v \<Rightarrow> \<lparr>returned = Inr v, after = c, fetches = sent\<rparr>))"

definition verifyPayment :: "SestraClient \<Rightarrow> VerifyPaymentResponse network \<Rightarrow> string \<Rightarrow> string \<Rightarrow> VerifyPaymentResponse call" where
  "verifyPayment c net referenceId txHash =
     (if sandbox (config c) = Some True then
        \<lparr>returned = Inl (JsError ''Use simulatePayment() for sandbox mode''), after = c, fetches = []\<rparr>
      else
        (let (response, sent) =
               fetch c net (''/api/v1/payments/'' @ referenceId @ ''/verify'')
                 \<lparr>http_method = Some ''POST'', headers = Map.empty, body = Some (TxHashJson txHash)\<rparr>
         in (case truthy_data (data response) of
               None \<Rightarrow>
                 \<lparr>returned = Inl (JsError (or_else (error response) ''Payment verification failed'')),
                  after = c, fetches = sent\<rparr>
             | Some d \<Rightarrow>
                 \<lparr>returned = Inr d,
                  after = setSession c
                    \<lparr>token = ver_token d, reference_id = ver_reference_id d,
                     expires_at = ver_expires_at d, calls_remaining = ver_calls_remaining d\<rparr>,
                  fetches = sent\<rparr>)))"

text \<open>The query string of a \<^verbatim>\<open>URLSearchParams\<close> whose keys and values need no escaping.\<close>

fun URLSearchParams_text :: "(string \<times> string) list \<Rightarrow> string" where
  "URLSearchParams_text [] = []"
| "URLSearchParams_text [(k, v)] = k @ ''='' @ v"
| "URLSearchParams_text ((k, v) # rest) = k @ ''='' @ v @ ''&'' @ URLSearchParams_text rest"

definition listPayments_endpoint :: "SestraClient \<Rightarrow> ListPaymentsOptions \<Rightarrow> string" where
  "listPayments_endpoint c options =
     (let params =
            (case status options of None \<Rightarrow> [] | Some s \<Rightarrow> [(''status'', PaymentStatus_text s)])
            @ (case limit options of
                 None \<Rightarrow> []
               | Some n \<Rightarrow> if n = 0 then [] else [(''limit'', string_of_int n)])
            @ (case offset options of
                 None \<Rightarrow> []
               | Some n \<Rightarrow> if n = 0 then [] else [(''offset'', string_of_int n)])
      in if sandbox (config c) = Some True
         then ''/api/v1/sandbox/payments?'' @ URLSearchParams_text params
         else ''/api/v1/payments?'' @ URLSearchParams_text params)"

definition listPayments :: "SestraClient \<Rightarrow> 'a list network \<Rightarrow> ListPaymentsOptions \<Rightarrow> 'a list call" where
  "listPayments c net options =
     (let endpoint = listPayments_endpoint c options;
          (response, sent) = fetch c net endpoint no_init
      in \<lparr>returned = Inr (case truthy_data (data response) of None \<Rightarrow> [] | Some payments \<Rightarrow> payments),
          after = c, fetches = sent\<rparr>)"

definition simulatePayment :: "SestraClient \<Rightarrow> SimulatePaymentResponse network \<Rightarrow> string \<Rightarrow> SimulatePaymentRequest option \<Rightarrow> SimulatePaymentResponse call" where
  "simulatePayment c net referenceId options =
     (if sandbox (config c) \<noteq> Some True then
        \<lparr>returned = Inl (JsError ''simulatePayment() only works in sandbox mode. Set sandbox: true in config.''),
         after = c, fetches = []\<rparr>
      else
        (let (response, sent) =
               fetch c net (''/api/v1/sandbox/payments/'' @ referenceId @ ''/simulate'')
                 \<lparr>http_method = Some ''POST'', headers = Map.empty,
                  body = Some (SimulateJson
                    (case options of None \<Rightarrow> \<lparr>simulate_success = Some True\<rparr> | Some given \<Rightarrow> given))\<rparr>
         in (case truthy_data (data response) of
               None \<Rightarrow>
                 \<lparr>returned = Inl (JsError (or_else (error response) ''Payment simulation failed'')),
                  after = c, fetches = sent\<rparr>
             | Some d \<Rightarrow>
                 \<lparr>returned = Inr d,
                  after =
                    (case sim_token d of
                       None \<Rightarrow> c
                     | Some t \<Rightarrow>
                         if sim_success d \<and> t \<noteq> [] then
                           setSession c
                             \<lparr>token = t, reference_id = sim_reference_id d,
                              expires_at = or_else (sim_expires_at d) [],
                              calls_remaining =
                                (case sim_calls_remaining d of None \<Rightarrow> 0 | Some n \<Rightarrow> n)\<rparr>
                         else c),
                  fetches = sent\<rparr>)))"

definition request :: "(string \<Rightarrow> int option) \<Rightarrow> int \<Rightarrow> SestraClient \<Rightarrow> 'a network \<Rightarrow> string \<Rightarrow> RequestInit \<Rightarrow> 'a call" where
  "request newDate now c net endpoint options =
     (case sessionToken c of
        None \<Rightarrow>
          \<lparr>returned = Inl (JsError ''No active session. Call verifyPayment() or simulatePayment() first.''),
           after = c, fetches = []\<rparr>
      | Some tok \<Rightarrow>
          if tok = [] then
            \<lparr>returned = Inl (JsError ''No active session. Call verifyPayment() or simulatePayment() first.''),
             after = c, fetches = []\<rparr>
          else if \<not> hasActiveSession newDate now c then
            \<lparr>returned = Inl (JsError ''Session expired or no calls remaining.''), after = c, fetches = []\<rparr>
          else
            (let (response, sent) =
                   fetch c net endpoint
                     (options\<lparr>headers := (headers options)(''X-Session-Token'' \<mapsto> tok)\<rparr>)
             in (case truthy_data (data response) of
                   None \<Rightarrow>
                     \<lparr>returned = Inl (JsError (or_else (error response) ''Request failed'')),
                      after = c, fetches = sent\<rparr>
                 | Some v \<Rightarrow>
                     \<lparr>returned = Inr v,
                      after =
                        (case currentSession c of
                           None \<Rightarrow> c
                         | Some s \<Rightarrow>
                             c\<lparr>currentSession :=
                                 Some (s\<lparr>calls_remaining := js_decrement (calls_remaining s)\<rparr>)\<rparr>),
                      fetches = sent\<rparr>)))"

text \<open>
  A caller issuing several protected requests one after another; each has its own time,
  server behaviour, endpoint and options.
\<close>

record 'a request_call =
  at_time :: int
  server :: "'a network"
  endpoint_of :: string
  options_of :: RequestInit

fun run_requests :: "(string \<Rightarrow> int option) \<Rightarrow> SestraClient \<Rightarrow> 'a request_call list \<Rightarrow> (js_thrown + 'a) list \<times> SestraClient" where
  "run_requests newDate c [] = ([], c)"
| "run_requests newDate c (q # qs) =
     (let r = request newDate (at_time q) c (server q) (endpoint_of q) (options_of q);
          (rs, c') = run_requests newDate (after r) qs
      in (returned r # rs, c'))"

definition successes :: "(js_thrown + 'a) list \<Rightarrow> nat" where
  "successes rs = length (filter (\<lambda>r. \<not> isl r) rs)"

section \<open>wallet.ts\<close>

text \<open>
  Effects of the wallet helper: a computation returns or throws, and lists the RPC calls
  it made. \<^verbatim>\<open>try\<close>/\<^verbatim>\<open>catch\<close> and sequencing are the usual combinators.
\<close>

type_synonym ('a, 'l) io = "(js_thrown + 'a) \<times> 'l list"

definition io_return :: "'a \<Rightarrow> ('a, 'l) io" where
  "io_return x = (Inr x, [])"

definition io_bind :: "('a, 'l) io \<Rightarrow> ('a \<Rightarrow> ('b, 'l) io) \<Rightarrow> ('b, 'l) io" where
  "io_bind m f =
     (case m of
        (Inl e, l) \<Rightarrow> (Inl e, l)
      | (Inr x, l) \<Rightarrow> (case f x of (r, l') \<Rightarrow> (r, l @ l')))"

definition try_catch :: "('a, 'l) io \<Rightarrow> (js_thrown \<Rightarrow> ('a, 'l) io) \<Rightarrow> ('a, 'l) io" where
  "try_catch m handler =
     (case m of
        (Inl e, l) \<Rightarrow> (case handler e of (r, l') \<Rightarrow> (r, l @ l'))
      | (Inr x, l) \<Rightarrow> (Inr x, l))"

text \<open>
  Instructions and transactions of the blockchain library, as data. \<^typ>\<open>'k\<close> is the
  library's public key; a transfer instruction holds the payer, the recipient and the
  amount as the unsigned 64-bit integer it is encoded as.
\<close>

datatype 'k Instruction =
    TransferInstruction 'k 'k int
  | MemoInstruction string "'k list"

record 'k Transaction =
  instructions :: "'k Instruction list"
  recentBlockhash :: "string option"
  feePayer :: "'k option"

record 'k Keypair =
  publicKey :: 'k
  secretKey :: string

record PaymentParams =
  recipientAddress :: string
  amountLamports :: js_number
  memo :: string

text \<open>
  The field \<^verbatim>\<open>error\<close> of \<^verbatim>\<open>PaymentResult\<close> is named \<^verbatim>\<open>failure\<close>, since
  \<^verbatim>\<open>ApiResponse\<close> has a field of that name.
\<close>

record PaymentResult =
  success :: bool
  txHash :: "string option"
  failure :: "string option"

datatype 'k rpc_call =
    GetLatestBlockhash
  | SendAndConfirmTransaction "'k Transaction" "'k Keypair list"

text \<open>
  The blockchain library and the RPC node behind the connection are parameters:
  \<^verbatim>\<open>new PublicKey(text)\<close> returns a key or throws on a malformed address,
  \<^verbatim>\<open>SystemProgram.transfer\<close> returns the instruction or throws on an amount it cannot
  encode, the blockhash query and the submission return or throw.
\<close>

record 'k web3 =
  new_PublicKey :: "string \<Rightarrow> js_thrown + 'k"
  SystemProgram_transfer :: "'k \<Rightarrow> 'k \<Rightarrow> js_number \<Rightarrow> js_thrown + 'k Instruction"
  getLatestBlockhash :: "js_thrown + string"
  sendAndConfirmTransaction :: "'k Transaction \<Rightarrow> 'k Keypair list \<Rightarrow> js_thrown + string"

definition new_Transaction :: "'k Transaction" where
  "new_Transaction = \<lparr>instructions = [], recentBlockhash = None, feePayer = None\<rparr>"

definition add :: "'k Transaction \<Rightarrow> 'k Instruction \<Rightarrow> 'k Transaction" where
  "add transaction i = transaction\<lparr>instructions := instructions transaction @ [i]\<rparr>"

definition createPaymentTransaction :: "'k web3 \<Rightarrow> 'k \<Rightarrow> PaymentParams \<Rightarrow> ('k Transaction, 'k rpc_call) io" where
  "createPaymentTransaction lib payerPublicKey params =
     (let transaction = new_Transaction
      in io_bind (new_PublicKey lib (recipientAddress params), [])
           (\<lambda>toPubkey.
              io_bind (SystemProgram_transfer lib payerPublicKey toPubkey (amountLamports params), [])
                (\<lambda>transfer.
                   let transaction = add transaction transfer;
                       transaction = add transaction (MemoInstruction (memo params) [payerPublicKey])
                   in io_bind (getLatestBlockhash lib, [GetLatestBlockhash])
                        (\<lambda>blockhash.
                           io_return (transaction\<lparr>recentBlockhash := Some blockhash,
                                                   feePayer := Some payerPublicKey\<rparr>)))))"

definition sendPayment :: "'k web3 \<Rightarrow> 'k Keypair \<Rightarrow> PaymentParams \<Rightarrow> (PaymentResult, 'k rpc_call) io" where
  "sendPayment lib keypair params =
     try_catch
       (io_bind (createPaymentTransaction lib (publicKey keypair) params)
          (\<lambda>transaction.
             io_bind (sendAndConfirmTransaction lib transaction [keypair],
                      [SendAndConfirmTransaction transaction [keypair]])
               (\<lambda>hash. io_return \<lparr>success = True, txHash = Some hash, failure = None\<rparr>)))
       (\<lambda>error.
          io_return \<lparr>success = False, txHash = None,
                     failure = Some (caught_message error ''Payment failed'')\<rparr>)"

text \<open>
  Polling. \<^verbatim>\<open>Date_now 0\<close> is the reading of \<^verbatim>\<open>Date.now()\<close> that \<^verbatim>\<open>start\<close> keeps, and
  \<^verbatim>\<open>Date_now (Suc i)\<close> the reading at the loop test before the \<^verbatim>\<open>i\<close>-th status query.
  A status query never settles, rejects, or resolves with
  \<^verbatim>\<open>status.value?.confirmationStatus\<close> (\<^verbatim>\<open>None\<close> when the value is null or the field is
  absent). The one-second timer after a query settles; what it does to the clock is in the
  readings. The call returns \<^verbatim>\<open>None\<close> when it never settles. A result records, beside
  what was returned or thrown, the number of status queries made.
\<close>

datatype confirmationStatus = Processed | Confirmed | Finalized

datatype status_query = NeverSettles | Rejected js_thrown | Resolved "confirmationStatus option"

record waited =
  outcome :: "js_thrown + bool"
  queries :: nat

definition is_confirmed :: "confirmationStatus option \<Rightarrow> bool" where
  "is_confirmed st = (st = Some Finalized \<or> st = Some Confirmed)"

text \<open>The loop test \<^verbatim>\<open>Date.now() - start < timeout\<close> before the \<^verbatim>\<open>i\<close>-th query.\<close>

definition in_time :: "(nat \<Rightarrow> int) \<Rightarrow> js_number \<Rightarrow> nat \<Rightarrow> bool" where
  "in_time Date_now timeout i = js_less (Finite (of_int (Date_now (Suc i) - Date_now 0))) timeout"

partial_function (option) waitLoop :: "(nat \<Rightarrow> int) \<Rightarrow> (nat \<Rightarrow> status_query) \<Rightarrow> js_number \<Rightarrow> nat \<Rightarrow> waited option" where
  "waitLoop Date_now getSignatureStatus timeout i =
     (if in_time Date_now timeout i then
        (case getSignatureStatus i of
           NeverSettles \<Rightarrow> None
         | Rejected e \<Rightarrow> Some \<lparr>outcome = Inl e, queries = Suc i\<rparr>
         | Resolved st \<Rightarrow>
             if is_confirmed st then Some \<lparr>outcome = Inr True, queries = Suc i\<rparr>
             else waitLoop Date_now getSignatureStatus timeout (Suc i))
      else Some \<lparr>outcome = Inr False, queries = i\<rparr>)"

text \<open>A call that leaves the timeout out takes 30000.\<close>

definition waitForConfirmation :: "(nat \<Rightarrow> int) \<Rightarrow> (string \<Rightarrow> nat \<Rightarrow> status_query) \<Rightarrow> string \<Rightarrow> js_number option \<Rightarrow> waited option" where
  "waitForConfirmation Date_now getSignatureStatus hash timeout =
     waitLoop Date_now (getSignatureStatus hash)
       (case timeout of None \<Rightarrow> Finite 30000 | Some given \<Rightarrow> given) 0"

text \<open>
  The loop goes on after the \<^verbatim>\<open>j\<close>-th turn: the test let it in and the query resolved
  with a status that is neither confirmed nor finalized.
\<close>

definition goes_on :: "(nat \<Rightarrow> int) \<Rightarrow> (nat \<Rightarrow> status_query) \<Rightarrow> js_number \<Rightarrow> nat \<Rightarrow> bool" where
  "goes_on Date_now getSignatureStatus timeout j =
     (in_time Date_now timeout j
      \<and> (case getSignatureStatus j of Resolved st \<Rightarrow> \<not> is_confirmed st | _ \<Rightarrow> False))"

fun went_on :: "(nat \<Rightarrow> int) \<Rightarrow> (nat \<Rightarrow> status_query) \<Rightarrow> js_number \<Rightarrow> nat \<Rightarrow> bool" where
  "went_on Date_now getSignatureStatus timeout 0 = True"
| "went_on Date_now getSignatureStatus timeout (Suc k) =
     (went_on Date_now getSignatureStatus timeout k \<and> goes_on Date_now getSignatureStatus timeout k)"

section \<open>Concrete values for the examples\<close>

text \<open>
  A runtime whose \<^verbatim>\<open>Date\<close> reads two ISO texts (the first instants of 2020 and of 2030)
  and a clock standing in November 2023.
\<close>

definition ex_newDate :: "string \<Rightarrow> int option" where
  "ex_newDate s =
     (if s = ''2030-01-01T00:00:00.000Z'' then Some 1893456000000
      else if s = ''2020-01-01T00:00:00.000Z'' then Some 1577836800000
      else None)"

definition ex_now :: int where
  "ex_now = 1700000000000"

definition ex_session :: Session where
  "ex_session =
     \<lparr>token = ''test-token-123'', reference_id = ''ref-123'',
      expires_at = ''2030-01-01T00:00:00.000Z'', calls_remaining = 2\<rparr>"

definition ex_client :: SestraClient where
  "ex_client = setSession (new_SestraClient no_config) ex_session"

definition ex_sandbox_client :: SestraClient where
  "ex_sandbox_client =
     setSession (new_SestraClient (no_config\<lparr>sandbox := Some True\<rparr>)) ex_session"

text \<open>The configuration of the test \<^verbatim>\<open>should use serviceBaseUrl when configured\<close>.\<close>

definition ex_service_client :: SestraClient where
  "ex_service_client =
     setSession
       (new_SestraClient
          (no_config\<lparr>sestraBaseUrl := Some ''https://api.sestra.com'',
                      serviceBaseUrl := Some ''https://api.myservice.com''\<rparr>))
       ex_session"

text \<open>Servers that give every request the same reply.\<close>

definition ex_big_session :: Session where
  "ex_big_session =
     \<lparr>token = ''test-token-123'', reference_id = ''ref-123'',
      expires_at = ''2030-01-01T00:00:00.000Z'', calls_remaining = 18014398509481984\<rparr>"

definition ex_big_client :: SestraClient where
  "ex_big_client = setSession (new_SestraClient no_config) ex_big_session"

definition replying :: "'a fetch_reply \<Rightarrow> 'a network" where
  "replying reply = (\<lambda>request. reply)"

definition ex_call :: "string request_call" where
  "ex_call =
     \<lparr>at_time = ex_now,
      server = replying (Responds True (Inr (JTruthy ''protected content'' None None))),
      endpoint_of = ''/api/test'', options_of = no_init\<rparr>"

definition ex_simulation_failed :: SimulatePaymentResponse where
  "ex_simulation_failed =
     \<lparr>sim_success = False, sim_reference_id = ''ref-123'', sim_status = Pending,
      sim_is_sandbox = True, sim_token = None, sim_expires_at = None,
      sim_calls_remaining = None, sim_message = ''Simulated payment failure''\<rparr>"

definition ex_simulation_ok :: SimulatePaymentResponse where
  "ex_simulation_ok =
     \<lparr>sim_success = True, sim_reference_id = ''ref-1'', sim_status = Active,
      sim_is_sandbox = True, sim_token = Some ''tok-1'',
      sim_expires_at = Some ''2030-01-01T00:00:00.000Z'',
      sim_calls_remaining = Some 100, sim_message = ''Payment simulated successfully''\<rparr>"

text \<open>
  A blockchain library that accepts exactly one address text and encodes exactly the
  unsigned 64-bit integers as amounts, with a node that answers or fails.
\<close>

definition ex_PublicKey :: "string \<Rightarrow> js_thrown + string" where
  "ex_PublicKey address =
     (if address = ''4Nd1mYQzvgV8Vr3Z3nYb7sT9eX5cW2uK1pQ6aR8bH7jL'' then Inr address
      else Inl (JsError ''Invalid public key input''))"

definition ex_transfer :: "string \<Rightarrow> string \<Rightarrow> js_number \<Rightarrow> js_thrown + string Instruction" where
  "ex_transfer fromPubkey toPubkey lamports =
     (case lamports of
        Finite q \<Rightarrow>
          if of_int \<lfloor>q\<rfloor> = q \<and> 0 \<le> q \<and> q < 18446744073709551616
          then Inr (TransferInstruction fromPubkey toPubkey \<lfloor>q\<rfloor>)
          else Inl (JsError ''amount is not an unsigned 64-bit integer'')
      | _ \<Rightarrow> Inl (JsError ''amount is not an unsigned 64-bit integer''))"

definition ex_web3 :: "string web3" where
  "ex_web3 =
     \<lparr>new_PublicKey = ex_PublicKey, SystemProgram_transfer = ex_transfer,
      getLatestBlockhash = Inr ''blockhash-1'',
      sendAndConfirmTransaction = (\<lambda>transaction signers. Inr ''signature-1'')\<rparr>"

definition ex_web3_offline :: "string web3" where
  "ex_web3_offline =
     \<lparr>new_PublicKey = ex_PublicKey, SystemProgram_transfer = ex_transfer,
      getLatestBlockhash = Inl (JsError ''failed to get recent blockhash''),
      sendAndConfirmTransaction = (\<lambda>transaction signers. Inl (JsError ''failed to send transaction''))\<rparr>"

definition ex_params :: PaymentParams where
  "ex_params =
     \<lparr>recipientAddress = ''4Nd1mYQzvgV8Vr3Z3nYb7sT9eX5cW2uK1pQ6aR8bH7jL'',
      amountLamports = Finite 1000000000, memo = ''payment-ref-123''\<rparr>"

definition ex_bad_params :: PaymentParams where
  "ex_bad_params =
     \<lparr>recipientAddress = ''invalid-address'', amountLamports = Finite 1000000000, memo = ''test''\<rparr>"

definition ex_negative_params :: PaymentParams where
  "ex_negative_params =
     \<lparr>recipientAddress = ''4Nd1mYQzvgV8Vr3Z3nYb7sT9eX5cW2uK1pQ6aR8bH7jL'',
      amountLamports = Finite (- 1), memo = ''payment-ref-123''\<rparr>"

text \<open>
  A clock that shows 1020 ms more at every loop test. Status sources: one that never
  confirms, one that confirms at the third query, one whose query rejects, one whose
  query never settles.
\<close>

definition ex_clock :: "nat \<Rightarrow> int" where
  "ex_clock i = (if i = 0 then 1700000000000 else 1700000000000 + 1020 * (int i - 1))"

definition ex_never :: "string \<Rightarrow> nat \<Rightarrow> status_query" where
  "ex_never hash i = Resolved (Some Processed)"

definition ex_third :: "string \<Rightarrow> nat \<Rightarrow> status_query" where
  "ex_third hash i = Resolved (if i = 2 then Some Confirmed else None)"

definition ex_unreachable :: "string \<Rightarrow> nat \<Rightarrow> status_query" where
  "ex_unreachable hash i = Rejected (JsError ''failed to get signature status'')"

definition ex_silent :: "string \<Rightarrow> nat \<Rightarrow> status_query" where
  "ex_silent hash i = NeverSettles"

section \<open>Auxiliary facts\<close>

lemma truthy_data_Some: "truthy_data x = Some v \<longleftrightarrow> (\<exists>e d. x = Some (JTruthy v e d))"
  by (cases x rule: truthy_data.cases) auto


lemma fetch_sent: "snd (fetch c net endpoint options) =
   [\<lparr>url = template (baseUrl (config c)) @ endpoint,
     init = options\<lparr>headers := [''Content-Type'' \<mapsto> ''application/json''] ++ headers options\<rparr>\<rparr>]"
  by (simp add: fetch_def Let_def)

lemma fetch_truthy:
  "truthy_data (data (fst (fetch c net endpoint options))) = Some v \<longleftrightarrow>
     (\<exists>e d. net (hd (snd (fetch c net endpoint options))) = Responds True (Inr (JTruthy v e d)))"
  by (auto simp: fetch_def Let_def truthy_data_Some split: fetch_reply.splits sum.splits json.splits)

lemma request_unfold:
  "request newDate now c net endpoint options =
     (if sessionToken c = None \<or> sessionToken c = Some [] then
        \<lparr>returned = Inl (JsError ''No active session. Call verifyPayment() or simulatePayment() first.''),
         after = c, fetches = []\<rparr>
      else if \<not> hasActiveSession newDate now c then
        \<lparr>returned = Inl (JsError ''Session expired or no calls remaining.''), after = c, fetches = []\<rparr>
      else
        (let f = fetch c net endpoint
                   (options\<lparr>headers := (headers options)(''X-Session-Token'' \<mapsto> the (sessionToken c))\<rparr>)
         in (case truthy_data (data (fst f)) of
               None \<Rightarrow>
                 \<lparr>returned = Inl (JsError (or_else (error (fst f)) ''Request failed'')),
                  after = c, fetches = snd f\<rparr>
             | Some v \<Rightarrow>
                 \<lparr>returned = Inr v,
                  after = c\<lparr>currentSession :=
                    map_option (\<lambda>s. s\<lparr>calls_remaining := js_decrement (calls_remaining s)\<rparr>)
                      (currentSession c)\<rparr>,
                  fetches = snd f\<rparr>)))"
  by (cases "sessionToken c")
     (auto simp: request_def Let_def case_prod_beta split: option.splits)

lemma request_throws:
  "isl (returned (request newDate now c net endpoint options)) \<Longrightarrow>
     after (request newDate now c net endpoint options) = c"
  by (auto simp: request_unfold Let_def split: option.splits if_splits)

lemma request_returns:
  assumes "returned (request newDate now c net endpoint options) = Inr v"
  shows "\<exists>tok s sent e d.
           sessionToken c = Some tok \<and> tok \<noteq> [] \<and> hasActiveSession newDate now c
         \<and> currentSession c = Some s
         \<and> fetches (request newDate now c net endpoint options) = [sent]
         \<and> url sent = template (baseUrl (config c)) @ endpoint
         \<and> headers (init sent) ''X-Session-Token'' = Some tok
         \<and> net sent = Responds True (Inr (JTruthy v e d))
         \<and> after (request newDate now c net endpoint options) =
             c\<lparr>currentSession := Some (s\<lparr>calls_remaining := js_decrement (calls_remaining s)\<rparr>)\<rparr>"
proof -
  let ?opts = "options\<lparr>headers := (headers options)(''X-Session-Token'' \<mapsto> the (sessionToken c))\<rparr>"
  from assms obtain tok where tok: "sessionToken c = Some tok" "tok \<noteq> []"
    by (cases "sessionToken c") (auto simp: request_unfold split: if_splits)
  from assms tok have act: "hasActiveSession newDate now c"
    by (auto simp: request_unfold split: if_splits)
  then obtain s where s: "currentSession c = Some s"
    by (auto simp: hasActiveSession_def split: option.splits)
  from assms tok act have tr: "truthy_data (data (fst (fetch c net endpoint ?opts))) = Some v"
    by (auto simp: request_unfold Let_def split: option.splits)
  then obtain e d where
    "net (hd (snd (fetch c net endpoint ?opts))) = Responds True (Inr (JTruthy v e d))"
    using fetch_truthy[of c net endpoint ?opts v] by auto
  with tok act s tr show ?thesis
    by (simp add: request_unfold Let_def fetch_sent)
qed

section \<open>Session activity\<close>

text \<open>
  C2. For every client state, \<^verbatim>\<open>hasActiveSession()\<close> is true exactly when a session is
  set, the time value of its \<^verbatim>\<open>expires_at\<close> is strictly later than the current time, and
  its \<^verbatim>\<open>calls_remaining\<close> is positive. It is false when no session is set, and false when
  either condition fails; an \<^verbatim>\<open>expires_at\<close> that is no date is not in the future.
\<close>

theorem hasActiveSession_iff:
  "(hasActiveSession newDate now c \<longleftrightarrow>
     (\<exists>s expiresAt. currentSession c = Some s \<and> newDate (expires_at s) = Some expiresAt
        \<and> now < expiresAt \<and> 0 < calls_remaining s))
   \<and> \<not> hasActiveSession newDate now (c\<lparr>currentSession := None\<rparr>)
   \<and> \<not> hasActiveSession newDate now (clearSession c)"
  by (auto simp: hasActiveSession_def clearSession_def split: option.splits)

section \<open>Sandbox and production mode\<close>

lemma simulatePayment_unfold:
  "simulatePayment c net referenceId options =
     (if sandbox (config c) \<noteq> Some True then
        \<lparr>returned = Inl (JsError ''simulatePayment() only works in sandbox mode. Set sandbox: true in config.''),
         after = c, fetches = []\<rparr>
      else
        (let f = fetch c net (''/api/v1/sandbox/payments/'' @ referenceId @ ''/simulate'')
                   \<lparr>http_method = Some ''POST'', headers = Map.empty,
                    body = Some (SimulateJson
                      (case options of None \<Rightarrow> \<lparr>simulate_success = Some True\<rparr> | Some given \<Rightarrow> given))\<rparr>
         in (case truthy_data (data (fst f)) of
               None \<Rightarrow>
                 \<lparr>returned = Inl (JsError (or_else (error (fst f)) ''Payment simulation failed'')),
                  after = c, fetches = snd f\<rparr>
             | Some d \<Rightarrow>
                 \<lparr>returned = Inr d,
                  after =
                    (case sim_token d of
                       None \<Rightarrow> c
                     | Some t \<Rightarrow>
                         if sim_success d \<and> t \<noteq> [] then
                           setSession c
                             \<lparr>token = t, reference_id = sim_reference_id d,
                              expires_at = or_else (sim_expires_at d) [],
                              calls_remaining =
                                (case sim_calls_remaining d of None \<Rightarrow> 0 | Some n \<Rightarrow> n)\<rparr>
                         else c),
                  fetches = snd f\<rparr>)))"
  by (simp add: simulatePayment_def Let_def case_prod_beta)

lemma simulatePayment_changed:
  assumes "after (simulatePayment c net referenceId options) \<noteq> c"
  shows "\<exists>sent d e1 e2 t.
           fetches (simulatePayment c net referenceId options) = [sent]
         \<and> net sent = Responds True (Inr (JTruthy d e1 e2))
         \<and> sim_success d \<and> sim_token d = Some t \<and> t \<noteq> []
         \<and> after (simulatePayment c net referenceId options) =
             setSession c
               \<lparr>token = t, reference_id = sim_reference_id d,
                expires_at = or_else (sim_expires_at d) [],
                calls_remaining = (case sim_calls_remaining d of None \<Rightarrow> 0 | Some n \<Rightarrow> n)\<rparr>"
proof -
  let ?f = "fetch c net (''/api/v1/sandbox/payments/'' @ referenceId @ ''/simulate'')
              \<lparr>http_method = Some ''POST'', headers = Map.empty,
               body = Some (SimulateJson
                 (case options of None \<Rightarrow> \<lparr>simulate_success = Some True\<rparr> | Some given \<Rightarrow> given))\<rparr>"
  from assms have sb: "sandbox (config c) = Some True"
    by (auto simp: simulatePayment_unfold split: if_splits)
  from assms sb obtain d where d: "truthy_data (data (fst ?f)) = Some d"
    by (cases "truthy_data (data (fst ?f))") (auto simp: simulatePayment_unfold Let_def)
  from assms sb d obtain t where t: "sim_token d = Some t" "sim_success d" "t \<noteq> []"
    by (cases "sim_token d") (auto simp: simulatePayment_unfold Let_def split: if_splits)
  from d have "\<exists>e1 e2. net (hd (snd ?f)) = Responds True (Inr (JTruthy d e1 e2))"
    by (simp only: fetch_truthy)
  then obtain e1 e2 where n: "net (hd (snd ?f)) = Responds True (Inr (JTruthy d e1 e2))"
    by blast
  have one: "snd ?f = [hd (snd ?f)]"
    by (simp add: fetch_sent)
  from sb d have fe: "fetches (simulatePayment c net referenceId options) = snd ?f"
    by (simp add: simulatePayment_unfold Let_def)
  from sb d t have af: "after (simulatePayment c net referenceId options) =
             setSession c
               \<lparr>token = t, reference_id = sim_reference_id d,
                expires_at = or_else (sim_expires_at d) [],
                calls_remaining = (case sim_calls_remaining d of None \<Rightarrow> 0 | Some n \<Rightarrow> n)\<rparr>"
    by (simp add: simulatePayment_unfold Let_def)
  from one fe n t af show ?thesis
    by metis
qed

lemma simulatePayment_answered:
  assumes "fetches (simulatePayment c net referenceId options) = [sent]"
    and "net sent = Responds True (Inr (JTruthy d e1 e2))"
  shows "returned (simulatePayment c net referenceId options) = Inr d"
proof -
  let ?f = "fetch c net (''/api/v1/sandbox/payments/'' @ referenceId @ ''/simulate'')
              \<lparr>http_method = Some ''POST'', headers = Map.empty,
               body = Some (SimulateJson
                 (case options of None \<Rightarrow> \<lparr>simulate_success = Some True\<rparr> | Some given \<Rightarrow> given))\<rparr>"
  from assms(1) have sb: "sandbox (config c) = Some True"
    by (auto simp: simulatePayment_unfold split: if_splits)
  with assms(1) have "snd ?f = [sent]"
    by (auto simp: simulatePayment_unfold Let_def split: option.splits)
  with assms(2) have "\<exists>e d'. net (hd (snd ?f)) = Responds True (Inr (JTruthy d e d'))"
    by simp
  then have "truthy_data (data (fst ?f)) = Some d"
    by (simp only: fetch_truthy)
  with sb show ?thesis
    by (simp add: simulatePayment_unfold Let_def)
qed

lemma simulatePayment_fetches:
  "fetches (simulatePayment c net referenceId options) =
     (if sandbox (config c) \<noteq> Some True then []
      else [\<lparr>url = template (baseUrl (config c)) @ ''/api/v1/sandbox/payments/'' @ referenceId @ ''/simulate'',
             init = \<lparr>http_method = Some ''POST'',
                     headers = [''Content-Type'' \<mapsto> ''application/json''],
                     body = Some (SimulateJson
                       (case options of None \<Rightarrow> \<lparr>simulate_success = Some True\<rparr> | Some given \<Rightarrow> given))\<rparr>\<rparr>])"
  by (simp add: simulatePayment_unfold Let_def fetch_sent split: option.splits)

lemma ex_sandbox_client_simps:
  "sandbox (config ex_sandbox_client) = Some True"
  "currentSession ex_sandbox_client = Some ex_session"
  "sessionToken ex_sandbox_client = Some ''test-token-123''"
  "baseUrl (config ex_sandbox_client) = Some ''https://api.sestralabs.xyz''"
  by (simp_all add: ex_sandbox_client_def setSession_def new_SestraClient_def spread_def
        overriding_def DEFAULT_CONFIG_def no_config_def ex_session_def)

lemma ex_client_simps:
  "sandbox (config ex_client) = Some False"
  "currentSession ex_client = Some ex_session"
  "sessionToken ex_client = Some ''test-token-123''"
  "baseUrl (config ex_client) = Some ''https://api.sestralabs.xyz''"
  by (simp_all add: ex_client_def setSession_def new_SestraClient_def spread_def
        overriding_def DEFAULT_CONFIG_def no_config_def ex_session_def)

lemma createPayment_fetches:
  "fetches (createPayment c net params) =
     [\<lparr>url = template (baseUrl (config c)) @ createPayment_endpoint c,
       init = \<lparr>http_method = Some ''POST'',
               headers = [''Content-Type'' \<mapsto> ''application/json''],
               body = Some (CreatePaymentJson params)\<rparr>\<rparr>]"
proof -
  have "fetches (createPayment c net params) =
          snd (fetch c net (createPayment_endpoint c)
                 \<lparr>http_method = Some ''POST'', headers = Map.empty,
                  body = Some (CreatePaymentJson params)\<rparr>)"
    by (simp add: createPayment_def Let_def case_prod_beta split: option.splits)
  then show ?thesis
    by (simp add: fetch_sent)
qed

text \<open>
  C4. On a client whose sandbox flag is set, \<^verbatim>\<open>verifyPayment\<close> throws the error that
  points to \<^verbatim>\<open>simulatePayment\<close>, leaves the client as it was and makes no call to
  \<^verbatim>\<open>fetch\<close>, whatever the server would have answered. On a client whose sandbox flag is
  not set (false, or absent), \<^verbatim>\<open>simulatePayment\<close> throws the error that asks for sandbox
  mode, again with the client unchanged and no call to \<^verbatim>\<open>fetch\<close>.
\<close>

theorem mode_mismatch_without_network:
  "(sandbox (config c) = Some True \<longrightarrow>
      verifyPayment c net referenceId hash =
        \<lparr>returned = Inl (JsError ''Use simulatePayment() for sandbox mode''), after = c, fetches = []\<rparr>)
   \<and> (sandbox (config c) \<noteq> Some True \<longrightarrow>
      simulatePayment c net' referenceId options =
        \<lparr>returned = Inl (JsError ''simulatePayment() only works in sandbox mode. Set sandbox: true in config.''),
         after = c, fetches = []\<rparr>)"
  by (simp add: verifyPayment_def simulatePayment_def)

theorem mode_mismatch_without_network_witness:
  "sandbox (config ex_sandbox_client) = Some True
   \<and> fetches (verifyPayment ex_sandbox_client (replying (Responds True (Inr JNull))) ''ref-123'' ''tx-hash'') = []
   \<and> returned (verifyPayment ex_sandbox_client (replying (Responds True (Inr JNull))) ''ref-123'' ''tx-hash'')
        = Inl (JsError ''Use simulatePayment() for sandbox mode'')
   \<and> sandbox (config ex_client) = Some False
   \<and> fetches (simulatePayment ex_client (replying (Responds True (Inr (JTruthy ex_simulation_ok None None)))) ''ref-123'' None) = []
   \<and> isl (returned (simulatePayment ex_client (replying (Responds True (Inr (JTruthy ex_simulation_ok None None)))) ''ref-123'' None))"
  using mode_mismatch_without_network[of ex_sandbox_client "replying (Responds True (Inr JNull))"
          "''ref-123''" "''tx-hash''" _ None]
        mode_mismatch_without_network[of ex_client _ "''ref-123''" _
          "replying (Responds True (Inr (JTruthy ex_simulation_ok None None)))" None]
  by (simp add: ex_sandbox_client_simps ex_client_simps)

text \<open>
  C5. \<^verbatim>\<open>simulatePayment\<close> changes the client only when the server answered with a success
  status and a truthy body whose \<^verbatim>\<open>success\<close> is true and whose \<^verbatim>\<open>token\<close> is a non-empty
  text; the client then holds the session built from that body. When the body says
  \<^verbatim>\<open>success: false\<close>, or has no token (or an empty one), the body is returned and the
  client, with any session set before, is exactly as it was. It is also as it was whenever
  the call throws.
\<close>

theorem simulatePayment_keeps_session:
  "(after (simulatePayment c net referenceId options) \<noteq> c \<longrightarrow>
      (\<exists>sent d e1 e2 t.
          fetches (simulatePayment c net referenceId options) = [sent]
        \<and> net sent = Responds True (Inr (JTruthy d e1 e2))
        \<and> sim_success d \<and> sim_token d = Some t \<and> t \<noteq> []
        \<and> after (simulatePayment c net referenceId options) =
            setSession c
              \<lparr>token = t, reference_id = sim_reference_id d,
               expires_at = or_else (sim_expires_at d) [],
               calls_remaining = (case sim_calls_remaining d of None \<Rightarrow> 0 | Some n \<Rightarrow> n)\<rparr>))
   \<and> (\<forall>sent d e1 e2.
        fetches (simulatePayment c net referenceId options) = [sent]
        \<and> net sent = Responds True (Inr (JTruthy d e1 e2))
        \<and> (\<not> sim_success d \<or> sim_token d = None \<or> sim_token d = Some []) \<longrightarrow>
          returned (simulatePayment c net referenceId options) = Inr d
        \<and> after (simulatePayment c net referenceId options) = c)
   \<and> (isl (returned (simulatePayment c net referenceId options)) \<longrightarrow>
        after (simulatePayment c net referenceId options) = c)"
proof (intro conjI allI impI)
  assume "after (simulatePayment c net referenceId options) \<noteq> c"
  then show "\<exists>sent d e1 e2 t.
          fetches (simulatePayment c net referenceId options) = [sent]
        \<and> net sent = Responds True (Inr (JTruthy d e1 e2))
        \<and> sim_success d \<and> sim_token d = Some t \<and> t \<noteq> []
        \<and> after (simulatePayment c net referenceId options) =
            setSession c
              \<lparr>token = t, reference_id = sim_reference_id d,
               expires_at = or_else (sim_expires_at d) [],
               calls_remaining = (case sim_calls_remaining d of None \<Rightarrow> 0 | Some n \<Rightarrow> n)\<rparr>"
    by (rule simulatePayment_changed)
next
  fix sent d e1 e2
  assume a: "fetches (simulatePayment c net referenceId options) = [sent]
        \<and> net sent = Responds True (Inr (JTruthy d e1 e2))
        \<and> (\<not> sim_success d \<or> sim_token d = None \<or> sim_token d = Some [])"
  then show "returned (simulatePayment c net referenceId options) = Inr d"
    using simulatePayment_answered by blast
  show "after (simulatePayment c net referenceId options) = c"
  proof (rule ccontr)
    assume "after (simulatePayment c net referenceId options) \<noteq> c"
    from simulatePayment_changed[OF this] obtain sent' d' e1' e2' t where
      s': "fetches (simulatePayment c net referenceId options) = [sent']"
      and n': "net sent' = Responds True (Inr (JTruthy d' e1' e2'))"
      and ok: "sim_success d'" "sim_token d' = Some t" "t \<noteq> []"
      by blast
    from a s' have "sent' = sent" by simp
    with a n' have "d' = d" by simp
    with a ok show False by simp
  qed
next
  assume "isl (returned (simulatePayment c net referenceId options))"
  then show "after (simulatePayment c net referenceId options) = c"
    by (auto simp: simulatePayment_unfold Let_def split: if_splits option.splits)
qed

theorem simulatePayment_keeps_session_witness:
  "sandbox (config ex_sandbox_client) = Some True
   \<and> getSession ex_sandbox_client = Some ex_session
   \<and> \<not> sim_success ex_simulation_failed
   \<and> returned (simulatePayment ex_sandbox_client
        (replying (Responds True (Inr (JTruthy ex_simulation_failed None None)))) ''ref-123''
        (Some \<lparr>simulate_success = Some False\<rparr>)) = Inr ex_simulation_failed
   \<and> after (simulatePayment ex_sandbox_client
        (replying (Responds True (Inr (JTruthy ex_simulation_failed None None)))) ''ref-123''
        (Some \<lparr>simulate_success = Some False\<rparr>)) = ex_sandbox_client"
proof -
  let ?net = "replying (Responds True (Inr (JTruthy ex_simulation_failed None None)))"
  let ?r = "simulatePayment ex_sandbox_client ?net ''ref-123'' (Some \<lparr>simulate_success = Some False\<rparr>)"
  obtain sent where sent: "fetches ?r = [sent]"
    by (simp add: simulatePayment_fetches ex_sandbox_client_simps)
  have reply: "?net sent = Responds True (Inr (JTruthy ex_simulation_failed None None))"
    by (simp add: replying_def)
  have failed: "\<not> sim_success ex_simulation_failed"
    by (simp add: ex_simulation_failed_def)
  from simulatePayment_keeps_session[of ex_sandbox_client ?net "''ref-123''"
        "Some \<lparr>simulate_success = Some False\<rparr>"]
  have "\<forall>sent d e1 e2.
        fetches ?r = [sent] \<and> ?net sent = Responds True (Inr (JTruthy d e1 e2))
        \<and> (\<not> sim_success d \<or> sim_token d = None \<or> sim_token d = Some []) \<longrightarrow>
          returned ?r = Inr d \<and> after ?r = ex_sandbox_client"
    by (rule conjunct1[OF conjunct2])
  with sent reply failed
  have "returned ?r = Inr ex_simulation_failed \<and> after ?r = ex_sandbox_client"
    by blast
  with failed show ?thesis
    by (simp add: ex_sandbox_client_simps getSession_def)
qed


section \<open>Listing payments\<close>

lemma fetch_falsy:
  "truthy_data (data (fst (fetch c net endpoint options))) = None \<longleftrightarrow>
     (\<forall>v e d. net (hd (snd (fetch c net endpoint options))) \<noteq> Responds True (Inr (JTruthy v e d)))"
proof -
  have "truthy_data (data (fst (fetch c net endpoint options))) = None \<longleftrightarrow>
          (\<forall>v. truthy_data (data (fst (fetch c net endpoint options))) \<noteq> Some v)"
    by (cases "truthy_data (data (fst (fetch c net endpoint options)))") simp_all
  then show ?thesis
    by (simp only: fetch_truthy) blast
qed

lemma listPayments_unfold:
  "listPayments c net options =
       \<lparr>returned = Inr (case truthy_data (data (fst (fetch c net (listPayments_endpoint c options) no_init))) of
                         None \<Rightarrow> [] | Some payments \<Rightarrow> payments),
        after = c, fetches = snd (fetch c net (listPayments_endpoint c options) no_init)\<rparr>"
  by (simp add: listPayments_def Let_def case_prod_beta)

text \<open>
  C10. \<^verbatim>\<open>listPayments\<close> never throws, whatever the server does. It makes one request and
  leaves the client as it was. It returns the empty sequence when the request is
  rejected (a transport failure), when the body cannot be parsed, when the status is not
  a success, and when the body of a successful response is \<^verbatim>\<open>null\<close>; it returns the
  sequence of a successful response as the server gave it.
\<close>

theorem listPayments_never_throws:
  "(\<exists>payments. returned (listPayments c net options) = Inr payments)
   \<and> after (listPayments c net options) = c
   \<and> (\<exists>sent. fetches (listPayments c net options) = [sent]
        \<and> (\<forall>e. net sent = Rejects e \<longrightarrow> returned (listPayments c net options) = Inr [])
        \<and> (\<forall>ok e. net sent = Responds ok (Inl e) \<longrightarrow> returned (listPayments c net options) = Inr [])
        \<and> (\<forall>parsed. net sent = Responds False parsed \<longrightarrow> returned (listPayments c net options) = Inr [])
        \<and> (net sent = Responds True (Inr JNull) \<longrightarrow> returned (listPayments c net options) = Inr [])
        \<and> (\<forall>payments e d. net sent = Responds True (Inr (JTruthy payments e d)) \<longrightarrow>
              returned (listPayments c net options) = Inr payments))"
proof -
  note u = listPayments_unfold[of c net options]
  let ?f = "fetch c net (listPayments_endpoint c options) no_init"
  let ?sent = "hd (snd ?f)"
  have one: "fetches (listPayments c net options) = [?sent]"
    by (simp add: u fetch_sent)
  have none: "returned (listPayments c net options) = Inr []"
    if "\<forall>v e d. net ?sent \<noteq> Responds True (Inr (JTruthy v e d))"
  proof -
    from that have "truthy_data (data (fst ?f)) = None"
      by (simp add: fetch_falsy)
    then show ?thesis by (simp add: u)
  qed
  have some: "returned (listPayments c net options) = Inr payments"
    if "net ?sent = Responds True (Inr (JTruthy payments e d))" for payments e d
  proof -
    from that have "\<exists>e d. net ?sent = Responds True (Inr (JTruthy payments e d))"
      by blast
    then have "truthy_data (data (fst ?f)) = Some payments"
      by (simp only: fetch_truthy)
    then show ?thesis by (simp add: u)
  qed
  have "(\<forall>e. net ?sent = Rejects e \<longrightarrow> returned (listPayments c net options) = Inr [])"
    using none by simp
  moreover have "(\<forall>ok e. net ?sent = Responds ok (Inl e) \<longrightarrow> returned (listPayments c net options) = Inr [])"
    using none by simp
  moreover have "(\<forall>parsed. net ?sent = Responds False parsed \<longrightarrow> returned (listPayments c net options) = Inr [])"
    using none by simp
  moreover have "(net ?sent = Responds True (Inr JNull) \<longrightarrow> returned (listPayments c net options) = Inr [])"
    using none by simp
  moreover have "(\<forall>payments e d. net ?sent = Responds True (Inr (JTruthy payments e d)) \<longrightarrow>
              returned (listPayments c net options) = Inr payments)"
    using some by blast
  moreover have "\<exists>payments. returned (listPayments c net options) = Inr payments"
    by (simp add: u)
  moreover have "after (listPayments c net options) = c"
    by (simp add: u)
  ultimately show ?thesis
    using one by blast
qed

theorem listPayments_never_throws_witness:
  "returned (listPayments ex_client (replying (Rejects (JsError ''fetch failed'')))
       \<lparr>status = Some Active, limit = Some 10, offset = None\<rparr>) = Inr ([] :: string list)
   \<and> returned (listPayments ex_client (replying (Responds True (Inr JNull)))
       \<lparr>status = None, limit = None, offset = None\<rparr>) = Inr ([] :: string list)
   \<and> returned (listPayments ex_client (replying (Responds False (Inr (JTruthy [] (Some ''Unauthorized'') None))))
       \<lparr>status = None, limit = None, offset = None\<rparr>) = Inr ([] :: string list)
   \<and> returned (listPayments ex_client (replying (Responds True (Inr (JTruthy [''ref-1'', ''ref-2''] None None))))
       \<lparr>status = Some Active, limit = Some 10, offset = None\<rparr>) = Inr [''ref-1'', ''ref-2'']"
  using
    listPayments_never_throws[of ex_client "replying (Rejects (JsError ''fetch failed'')) :: string list network"
       "\<lparr>status = Some Active, limit = Some 10, offset = None\<rparr>"]
    listPayments_never_throws[of ex_client "replying (Responds True (Inr JNull)) :: string list network"
       "\<lparr>status = None, limit = None, offset = None\<rparr>"]
    listPayments_never_throws[of ex_client
       "replying (Responds False (Inr (JTruthy [] (Some ''Unauthorized'') None))) :: string list network"
       "\<lparr>status = None, limit = None, offset = None\<rparr>"]
    listPayments_never_throws[of ex_client
       "replying (Responds True (Inr (JTruthy [''ref-1'', ''ref-2''] None None)))"
       "\<lparr>status = Some Active, limit = Some 10, offset = None\<rparr>"]
  by (simp add: replying_def)

section \<open>Protected requests\<close>

lemma ex_service_client_simps:
  "serviceBaseUrl (config ex_service_client) = Some ''https://api.myservice.com''"
  "sestraBaseUrl (config ex_service_client) = Some ''https://api.sestra.com''"
  "baseUrl (config ex_service_client) = Some ''https://api.sestralabs.xyz''"
  "sandbox (config ex_service_client) = Some False"
  "currentSession ex_service_client = Some ex_session"
  "sessionToken ex_service_client = Some ''test-token-123''"
  by (simp_all add: ex_service_client_def setSession_def new_SestraClient_def spread_def
        overriding_def DEFAULT_CONFIG_def no_config_def ex_session_def)

lemma ex_session_active:
  "currentSession c = Some ex_session \<Longrightarrow> hasActiveSession ex_newDate ex_now c"
  by (simp add: hasActiveSession_def ex_session_def ex_newDate_def ex_now_def)

text \<open>
  C3. \<^verbatim>\<open>request\<close> is to call the separately configured service base URL. It does not:
  the client of the test \<^verbatim>\<open>should use serviceBaseUrl when configured\<close>, with an active
  session, sends its protected request to the default gateway base URL, the one
  \<^verbatim>\<open>createPayment\<close> uses, and not to the configured \<^verbatim>\<open>serviceBaseUrl\<close>, which the client
  never reads. The session token is attached as the \<^verbatim>\<open>X-Session-Token\<close> header.
\<close>

theorem request_targets_gateway_base_url:
  "serviceBaseUrl (config ex_service_client) = Some ''https://api.myservice.com''
   \<and> hasActiveSession ex_newDate ex_now ex_service_client
   \<and> map url (fetches (request ex_newDate ex_now ex_service_client
          (replying (Responds True (Inr (JTruthy ''service response'' None None))))
          ''/api/protected'' no_init))
       = [''https://api.sestralabs.xyz/api/protected'']
   \<and> map (\<lambda>sent. headers (init sent) ''X-Session-Token'')
         (fetches (request ex_newDate ex_now ex_service_client
            (replying (Responds True (Inr (JTruthy ''service response'' None None))))
            ''/api/protected'' no_init))
       = [Some ''test-token-123'']
   \<and> map url (fetches (createPayment ex_service_client
          (replying (Responds True (Inr (JTruthy ''created'' None None))))
          \<lparr>policy_id = ''policy-123'', metadata = None\<rparr>))
       = [''https://api.sestralabs.xyz/api/v1/payments'']"
proof -
  have act: "hasActiveSession ex_newDate ex_now ex_service_client"
    by (rule ex_session_active) (simp add: ex_service_client_simps)
  then show ?thesis
    by (simp add: request_unfold Let_def fetch_sent createPayment_fetches ex_service_client_simps
          template_def createPayment_endpoint_def no_init_def split: option.splits)
qed

lemma ulp_small: "a < 2 ^ 53 \<Longrightarrow> ulp a = 1"
  by (subst ulp.simps) simp

lemma round_double_exact: "\<bar>n\<bar> < 2 ^ 53 \<Longrightarrow> round_double n = n"
proof -
  assume "\<bar>n\<bar> < 2 ^ 53"
  then have "nat \<bar>n\<bar> < 2 ^ 53"
    by (simp add: nat_less_iff)
  then have "ulp (nat \<bar>n\<bar>) = 1"
    by (rule ulp_small)
  then show ?thesis
    by (simp add: round_double_def Let_def mult_sgn_abs)
qed

lemma js_decrement_exact: "0 < x \<Longrightarrow> x \<le> 2 ^ 53 \<Longrightarrow> js_decrement x = x - 1"
  by (simp add: js_decrement_def round_double_exact)

lemma ulp_2_54: "ulp 18014398509481983 = 2"
proof -
  have "ulp 18014398509481983 = 2 * ulp 9007199254740991"
    by (subst ulp.simps) simp
  also have "ulp 9007199254740991 = 1"
    by (rule ulp_small) simp
  finally show ?thesis by simp
qed

lemma js_decrement_2_54: "js_decrement 18014398509481984 = 18014398509481984"
  by (simp add: js_decrement_def round_double_def Let_def ulp_2_54)

lemma successes_Cons:
  "successes (r # rs) = (if isl r then successes rs else Suc (successes rs))"
  by (simp add: successes_def)

lemma request_active_positive:
  "returned (request newDate now c net endpoint options) = Inr v \<Longrightarrow>
     currentSession c = Some s \<Longrightarrow> 0 < calls_remaining s"
  using request_returns[of newDate now c net endpoint options v]
  by (auto simp: hasActiveSession_def)

lemma run_requests_counts:
  "currentSession c = Some s \<Longrightarrow> calls_remaining s \<le> 2 ^ 53 \<Longrightarrow>
     run_requests newDate c qs = (rs, c') \<Longrightarrow>
     currentSession c' = Some (s\<lparr>calls_remaining := calls_remaining s - int (successes rs)\<rparr>)"
proof (induction qs arbitrary: c s rs c')
  case Nil
  then show ?case by (simp add: successes_def)
next
  case (Cons q qs)
  let ?r = "request newDate (at_time q) c (server q) (endpoint_of q) (options_of q)"
  obtain rs' where rest: "run_requests newDate (after ?r) qs = (rs', c')" and rs: "rs = returned ?r # rs'"
    using Cons.prems(3) by (auto simp: Let_def split: prod.splits)
  show ?case
  proof (cases "returned ?r")
    case (Inl e)
    then have "after ?r = c"
      using request_throws[of newDate "at_time q" c "server q" "endpoint_of q" "options_of q"] by simp
    with Cons.IH[of c s rs' c'] Cons.prems(1,2) rest
    have "currentSession c' = Some (s\<lparr>calls_remaining := calls_remaining s - int (successes rs')\<rparr>)"
      by simp
    with rs Inl show ?thesis by (simp add: successes_Cons)
  next
    case (Inr v)
    from request_active_positive[OF Inr Cons.prems(1)] Cons.prems(2)
    have exact: "js_decrement (calls_remaining s) = calls_remaining s - 1"
      by (rule js_decrement_exact)
    from request_returns[OF Inr] Cons.prems(1)
    have "after ?r = c\<lparr>currentSession := Some (s\<lparr>calls_remaining := js_decrement (calls_remaining s)\<rparr>)\<rparr>"
      by auto
    with exact have "currentSession (after ?r) = Some (s\<lparr>calls_remaining := calls_remaining s - 1\<rparr>)"
      by simp
    moreover from Cons.prems(2) have "calls_remaining (s\<lparr>calls_remaining := calls_remaining s - 1\<rparr>) \<le> 2 ^ 53"
      by simp
    ultimately have "currentSession c' =
        Some (s\<lparr>calls_remaining := calls_remaining s - 1\<rparr>
               \<lparr>calls_remaining := calls_remaining (s\<lparr>calls_remaining := calls_remaining s - 1\<rparr>)
                                    - int (successes rs')\<rparr>)"
      using rest by (rule Cons.IH)
    with rs Inr show ?thesis by (simp add: successes_Cons)
  qed
qed

lemma request_precondition:
  "sessionToken c = None \<or> sessionToken c = Some [] \<or> \<not> hasActiveSession newDate now c \<Longrightarrow>
     isl (returned (request newDate now c net endpoint options))
     \<and> fetches (request newDate now c net endpoint options) = []
     \<and> after (request newDate now c net endpoint options) = c"
  by (auto simp: request_unfold)

lemma request_refused:
  assumes "fetches (request newDate now c net endpoint options) = [sent]"
    and "\<forall>v e d. net sent \<noteq> Responds True (Inr (JTruthy v e d))"
  shows "isl (returned (request newDate now c net endpoint options))"
proof (cases "returned (request newDate now c net endpoint options)")
  case (Inl e)
  then show ?thesis by simp
next
  case (Inr v)
  from request_returns[OF Inr] assms show ?thesis
    by auto
qed

lemma request_succeeds:
  assumes "sessionToken c = Some tok" and "tok \<noteq> []"
    and "hasActiveSession newDate now c"
    and "net \<lparr>url = template (baseUrl (config c)) @ endpoint,
              init = options\<lparr>headers := [''Content-Type'' \<mapsto> ''application/json'']
                                          ++ (headers options)(''X-Session-Token'' \<mapsto> tok)\<rparr>\<rparr>
         = Responds True (Inr (JTruthy v e d))"
  shows "returned (request newDate now c net endpoint options) = Inr v"
proof -
  let ?opts = "options\<lparr>headers := (headers options)(''X-Session-Token'' \<mapsto> the (sessionToken c))\<rparr>"
  have "hd (snd (fetch c net endpoint ?opts)) =
          \<lparr>url = template (baseUrl (config c)) @ endpoint,
           init = options\<lparr>headers := [''Content-Type'' \<mapsto> ''application/json'']
                                       ++ (headers options)(''X-Session-Token'' \<mapsto> tok)\<rparr>\<rparr>"
    by (simp add: fetch_sent assms(1))
  with assms(4) have "\<exists>e d. net (hd (snd (fetch c net endpoint ?opts))) = Responds True (Inr (JTruthy v e d))"
    by simp
  then have "truthy_data (data (fst (fetch c net endpoint ?opts))) = Some v"
    by (simp only: fetch_truthy)
  with assms(1,2,3) show ?thesis
    by (simp add: request_unfold Let_def)
qed

lemma request_ok_eval:
  assumes "sessionToken c = Some ''test-token-123''"
    and "currentSession c = Some s" and "hasActiveSession ex_newDate ex_now c"
  shows "returned (request ex_newDate (at_time ex_call) c (server ex_call) (endpoint_of ex_call) (options_of ex_call))
           = Inr ''protected content''"
    and "after (request ex_newDate (at_time ex_call) c (server ex_call) (endpoint_of ex_call) (options_of ex_call))
           = c\<lparr>currentSession := Some (s\<lparr>calls_remaining := js_decrement (calls_remaining s)\<rparr>)\<rparr>"
proof -
  show r: "returned (request ex_newDate (at_time ex_call) c (server ex_call) (endpoint_of ex_call) (options_of ex_call))
           = Inr ''protected content''"
    by (rule request_succeeds[where tok = "''test-token-123''" and e = None and d = None])
       (simp_all add: assms ex_call_def replying_def)
  from request_returns[OF r] assms(2)
  show "after (request ex_newDate (at_time ex_call) c (server ex_call) (endpoint_of ex_call) (options_of ex_call))
           = c\<lparr>currentSession := Some (s\<lparr>calls_remaining := js_decrement (calls_remaining s)\<rparr>)\<rparr>"
    by auto
qed

lemma ex_run:
  "run_requests ex_newDate ex_client [ex_call, ex_call] =
     ([Inr ''protected content'', Inr ''protected content''],
      ex_client\<lparr>currentSession := Some (ex_session\<lparr>calls_remaining := 0\<rparr>)\<rparr>)"
proof -
  let ?c1 = "ex_client\<lparr>currentSession := Some (ex_session\<lparr>calls_remaining := 1\<rparr>)\<rparr>"
  have s0: "currentSession ex_client = Some ex_session"
    by (simp add: ex_client_simps)
  have a0: "hasActiveSession ex_newDate ex_now ex_client"
    by (rule ex_session_active) (rule s0)
  have a1: "hasActiveSession ex_newDate ex_now ?c1"
    by (simp add: hasActiveSession_def ex_session_def ex_newDate_def ex_now_def)
  have t0: "sessionToken ex_client = Some ''test-token-123''"
    by (simp add: ex_client_simps)
  have t1: "sessionToken ?c1 = Some ''test-token-123''"
    by (simp add: ex_client_simps)
  have s1: "currentSession ?c1 = Some (ex_session\<lparr>calls_remaining := 1\<rparr>)"
    by simp
  note first = request_ok_eval[OF t0 s0 a0]
  note second = request_ok_eval[OF t1 s1 a1]
  have after1: "after (request ex_newDate (at_time ex_call) ex_client (server ex_call)
                  (endpoint_of ex_call) (options_of ex_call)) = ?c1"
    by (simp add: first(2) ex_session_def js_decrement_exact)
  have after2: "after (request ex_newDate (at_time ex_call) ?c1 (server ex_call)
                  (endpoint_of ex_call) (options_of ex_call))
                = ex_client\<lparr>currentSession := Some (ex_session\<lparr>calls_remaining := 0\<rparr>)\<rparr>"
    by (simp add: second(2) js_decrement_exact)
  show ?thesis
    by (simp add: Let_def first(1) after1 second(1) after2)
qed

lemma ex_big_client_simps:
  "currentSession ex_big_client = Some ex_big_session"
  "sessionToken ex_big_client = Some ''test-token-123''"
  "baseUrl (config ex_big_client) = Some ''https://api.sestralabs.xyz''"
  "hasActiveSession ex_newDate ex_now ex_big_client"
  "ex_big_client\<lparr>currentSession := Some ex_big_session\<rparr> = ex_big_client"
  by (simp_all add: ex_big_client_def setSession_def new_SestraClient_def spread_def
        overriding_def DEFAULT_CONFIG_def no_config_def ex_big_session_def
        hasActiveSession_def ex_newDate_def ex_now_def)

text \<open>
  C1, as amended. Take a client with a stored session and one call \<^verbatim>\<open>r\<close> to \<^verbatim>\<open>request\<close>.
  The call returns the body whenever a non-empty token is set, the session is active and
  the one request it sends (to the base URL followed by the endpoint, with the
  \<^verbatim>\<open>Content-Type\<close> header, the caller's headers and the \<^verbatim>\<open>X-Session-Token\<close> header) is
  answered with a success status and a truthy JSON body. If the call returns a value, it
  returned only because that request was so answered, and the client afterwards differs
  from the client before in exactly one place: \<^verbatim>\<open>calls_remaining\<close> of the session has
  been decremented as a double-precision number, which makes it smaller by exactly 1
  whenever it was at most \<^verbatim>\<open>2^53\<close>. If the call throws, the client is unchanged. A call
  throws when no token is set or the session is not active (then nothing is sent), and
  whenever the request is answered by anything other than a success status with a truthy
  JSON body: a rejected request, a status that is not a success, a body that cannot be
  parsed, and a success response whose body is \<^verbatim>\<open>null\<close>, \<^verbatim>\<open>false\<close>, \<^verbatim>\<open>0\<close> or the empty
  string. Consequently, for a session with \<^verbatim>\<open>calls_remaining = n\<close>, \<^verbatim>\<open>n\<close> at most \<^verbatim>\<open>2^53\<close>,
  after any series of calls of which exactly \<^verbatim>\<open>n\<close> returned a value, the session is not
  active at any later time.
\<close>

theorem request_consumes_one_call:
  assumes "currentSession c = Some s"
    and "r = request newDate now c net endpoint options"
  shows "(\<forall>tok v e d.
            sessionToken c = Some tok \<and> tok \<noteq> [] \<and> hasActiveSession newDate now c
            \<and> net \<lparr>url = template (baseUrl (config c)) @ endpoint,
                    init = options\<lparr>headers := [''Content-Type'' \<mapsto> ''application/json'']
                                                ++ (headers options)(''X-Session-Token'' \<mapsto> tok)\<rparr>\<rparr>
                = Responds True (Inr (JTruthy v e d)) \<longrightarrow>
            returned r = Inr v)
       \<and> (\<forall>v. returned r = Inr v \<longrightarrow>
            after r = c\<lparr>currentSession := Some (s\<lparr>calls_remaining := js_decrement (calls_remaining s)\<rparr>)\<rparr>
          \<and> (calls_remaining s \<le> 2 ^ 53 \<longrightarrow>
               after r = c\<lparr>currentSession := Some (s\<lparr>calls_remaining := calls_remaining s - 1\<rparr>)\<rparr>)
          \<and> (\<exists>sent e d. fetches r = [sent] \<and> net sent = Responds True (Inr (JTruthy v e d))))
       \<and> (isl (returned r) \<longrightarrow> after r = c)
       \<and> (sessionToken c = None \<or> sessionToken c = Some [] \<or> \<not> hasActiveSession newDate now c \<longrightarrow>
            isl (returned r) \<and> fetches r = [])
       \<and> (\<forall>sent. fetches r = [sent]
            \<and> (\<forall>v e d. net sent \<noteq> Responds True (Inr (JTruthy v e d))) \<longrightarrow>
            isl (returned r))
       \<and> (\<forall>n qs rs c' later.
            calls_remaining s = int n \<and> int n \<le> 2 ^ 53
            \<and> run_requests newDate c qs = (rs, c') \<and> successes rs = n \<longrightarrow>
            \<not> hasActiveSession newDate later c')"
proof (intro conjI allI impI)
  fix tok v e d
  assume a: "sessionToken c = Some tok \<and> tok \<noteq> [] \<and> hasActiveSession newDate now c
            \<and> net \<lparr>url = template (baseUrl (config c)) @ endpoint,
                    init = options\<lparr>headers := [''Content-Type'' \<mapsto> ''application/json'']
                                                ++ (headers options)(''X-Session-Token'' \<mapsto> tok)\<rparr>\<rparr>
                = Responds True (Inr (JTruthy v e d))"
  then show "returned r = Inr v"
    using request_succeeds[of c tok newDate now net endpoint options v e d] assms(2) by simp
next
  fix v assume v: "returned r = Inr v"
  from request_returns[of newDate now c net endpoint options v] v assms
  show dec: "after r = c\<lparr>currentSession := Some (s\<lparr>calls_remaining := js_decrement (calls_remaining s)\<rparr>)\<rparr>"
    by auto
  from request_returns[of newDate now c net endpoint options v] v assms(2)
  show "\<exists>sent e d. fetches r = [sent] \<and> net sent = Responds True (Inr (JTruthy v e d))"
    by blast
  assume small: "calls_remaining s \<le> 2 ^ 53"
  from v assms have "0 < calls_remaining s"
    using request_active_positive[of newDate now c net endpoint options v s] by simp
  with small have "js_decrement (calls_remaining s) = calls_remaining s - 1"
    by (simp add: js_decrement_exact)
  with dec show "after r = c\<lparr>currentSession := Some (s\<lparr>calls_remaining := calls_remaining s - 1\<rparr>)\<rparr>"
    by simp
next
  assume "isl (returned r)"
  with assms(2) show "after r = c"
    using request_throws[of newDate now c net endpoint options] by simp
next
  assume p: "sessionToken c = None \<or> sessionToken c = Some [] \<or> \<not> hasActiveSession newDate now c"
  from request_precondition[OF p, of net endpoint options] assms(2) show "isl (returned r)" and "fetches r = []"
    by simp_all
next
  fix sent
  assume a: "fetches r = [sent] \<and> (\<forall>v e d. net sent \<noteq> Responds True (Inr (JTruthy v e d)))"
  with assms(2) show "isl (returned r)"
    using request_refused[of newDate now c net endpoint options sent] by simp
next
  fix n qs rs c' later
  assume a: "calls_remaining s = int n \<and> int n \<le> 2 ^ 53
            \<and> run_requests newDate c qs = (rs, c') \<and> successes rs = n"
  then have "calls_remaining s \<le> 2 ^ 53" by simp
  from run_requests_counts[OF assms(1) this, of newDate qs rs c'] a
  have "currentSession c' = Some (s\<lparr>calls_remaining := 0\<rparr>)"
    by simp
  then show "\<not> hasActiveSession newDate later c'"
    by (simp add: hasActiveSession_def)
qed

text \<open>
  The amended C1 on the session of the tests (two calls remaining): a call answered with
  a success status and a body returns the body and leaves one call; a call answered with
  status 403 throws and leaves the client as it was; after two calls that returned, the
  session is not active.
\<close>

theorem request_consumes_one_call_witness:
  "currentSession ex_client = Some ex_session
   \<and> calls_remaining ex_session = 2
   \<and> hasActiveSession ex_newDate ex_now ex_client
   \<and> returned (request ex_newDate ex_now ex_client
         (replying (Responds True (Inr (JTruthy ''protected content'' None None))))
         ''/api/test'' no_init) = Inr ''protected content''
   \<and> after (request ex_newDate ex_now ex_client
         (replying (Responds True (Inr (JTruthy ''protected content'' None None))))
         ''/api/test'' no_init)
       = ex_client\<lparr>currentSession := Some (ex_session\<lparr>calls_remaining := 1\<rparr>)\<rparr>
   \<and> isl (returned (request ex_newDate ex_now ex_client
         (replying (Responds False (Inr (JTruthy ''denied'' (Some ''Forbidden'') None))))
         ''/api/test'' no_init))
   \<and> after (request ex_newDate ex_now ex_client
         (replying (Responds False (Inr (JTruthy ''denied'' (Some ''Forbidden'') None))))
         ''/api/test'' no_init) = ex_client
   \<and> run_requests ex_newDate ex_client [ex_call, ex_call] =
        ([Inr ''protected content'', Inr ''protected content''],
         ex_client\<lparr>currentSession := Some (ex_session\<lparr>calls_remaining := 0\<rparr>)\<rparr>)
   \<and> \<not> hasActiveSession ex_newDate ex_now
         (ex_client\<lparr>currentSession := Some (ex_session\<lparr>calls_remaining := 0\<rparr>)\<rparr>)"
proof -
  let ?ok = "replying (Responds True (Inr (JTruthy ''protected content'' None None)))"
  let ?no = "replying (Responds False (Inr (JTruthy ''denied'' (Some ''Forbidden'') None)))"
  let ?r = "request ex_newDate ex_now ex_client ?ok ''/api/test'' no_init"
  let ?f = "request ex_newDate ex_now ex_client ?no ''/api/test'' no_init"
  have s: "currentSession ex_client = Some ex_session"
    by (simp add: ex_client_simps)
  have act: "hasActiveSession ex_newDate ex_now ex_client"
    by (rule ex_session_active) (rule s)
  have two: "calls_remaining ex_session = 2"
    by (simp add: ex_session_def)
  note t1 = request_consumes_one_call[OF s refl, of ex_newDate ex_now ?ok "''/api/test''" no_init]
  note t2 = request_consumes_one_call[OF s refl, of ex_newDate ex_now ?no "''/api/test''" no_init]
  from t1 have "\<forall>tok v e d.
            sessionToken ex_client = Some tok \<and> tok \<noteq> [] \<and> hasActiveSession ex_newDate ex_now ex_client
            \<and> ?ok \<lparr>url = template (baseUrl (config ex_client)) @ ''/api/test'',
                    init = no_init\<lparr>headers := [''Content-Type'' \<mapsto> ''application/json'']
                                                ++ (headers no_init)(''X-Session-Token'' \<mapsto> tok)\<rparr>\<rparr>
                = Responds True (Inr (JTruthy v e d)) \<longrightarrow>
            returned ?r = Inr v"
    by (rule conjunct1)
  moreover have "sessionToken ex_client = Some ''test-token-123''"
    by (simp add: ex_client_simps)
  moreover have "?ok \<lparr>url = template (baseUrl (config ex_client)) @ ''/api/test'',
                    init = no_init\<lparr>headers := [''Content-Type'' \<mapsto> ''application/json'']
                                                ++ (headers no_init)(''X-Session-Token'' \<mapsto> ''test-token-123'')\<rparr>\<rparr>
                = Responds True (Inr (JTruthy ''protected content'' None None))"
    by (simp add: replying_def)
  ultimately have ok: "returned ?r = Inr ''protected content''"
    using act by blast
  from t1 have "\<forall>v. returned ?r = Inr v \<longrightarrow>
            after ?r = ex_client\<lparr>currentSession :=
                         Some (ex_session\<lparr>calls_remaining := js_decrement (calls_remaining ex_session)\<rparr>)\<rparr>
          \<and> (calls_remaining ex_session \<le> 2 ^ 53 \<longrightarrow>
               after ?r = ex_client\<lparr>currentSession :=
                         Some (ex_session\<lparr>calls_remaining := calls_remaining ex_session - 1\<rparr>)\<rparr>)
          \<and> (\<exists>sent e d. fetches ?r = [sent] \<and> ?ok sent = Responds True (Inr (JTruthy v e d)))"
    by (rule conjunct1[OF conjunct2])
  with ok have "calls_remaining ex_session \<le> 2 ^ 53 \<longrightarrow>
               after ?r = ex_client\<lparr>currentSession :=
                         Some (ex_session\<lparr>calls_remaining := calls_remaining ex_session - 1\<rparr>)\<rparr>"
    by blast
  then have a: "after ?r = ex_client\<lparr>currentSession := Some (ex_session\<lparr>calls_remaining := 1\<rparr>)\<rparr>"
    by (simp add: ex_session_def)
  have sent: "fetches ?f =
     [\<lparr>url = template (baseUrl (config ex_client)) @ ''/api/test'',
       init = no_init\<lparr>headers := [''Content-Type'' \<mapsto> ''application/json'']
                                  ++ (headers no_init)(''X-Session-Token'' \<mapsto> ''test-token-123'')\<rparr>\<rparr>]"
    by (simp add: request_unfold Let_def fetch_sent ex_client_simps act split: option.splits)
  from t2 have "\<forall>sent. fetches ?f = [sent]
            \<and> (\<forall>v e d. ?no sent \<noteq> Responds True (Inr (JTruthy v e d))) \<longrightarrow>
            isl (returned ?f)"
    by (rule conjunct1[OF conjunct2[OF conjunct2[OF conjunct2[OF conjunct2]]]])
  moreover have "\<forall>v e d. ?no (hd (fetches ?f)) \<noteq> Responds True (Inr (JTruthy v e d))"
    by (simp add: replying_def)
  ultimately have b: "isl (returned ?f)"
    using sent by (metis list.sel(1))
  from t2 have "isl (returned ?f) \<longrightarrow> after ?f = ex_client"
    by (rule conjunct1[OF conjunct2[OF conjunct2]])
  with b have c: "after ?f = ex_client"
    by simp
  from t1 have "\<forall>n qs rs c' later.
            calls_remaining ex_session = int n \<and> int n \<le> 2 ^ 53
            \<and> run_requests ex_newDate ex_client qs = (rs, c')
            \<and> successes rs = n \<longrightarrow>
            \<not> hasActiveSession ex_newDate later c'"
    by (rule conjunct2[OF conjunct2[OF conjunct2[OF conjunct2[OF conjunct2]]]])
  moreover have "calls_remaining ex_session = int 2"
    by (simp add: ex_session_def)
  moreover have "int 2 \<le> 2 ^ 53"
    by simp
  moreover have "successes [Inr ''protected content'', Inr ''protected content'' :: js_thrown + string] = 2"
    by (simp add: successes_def)
  ultimately have d: "\<not> hasActiveSession ex_newDate ex_now
         (ex_client\<lparr>currentSession := Some (ex_session\<lparr>calls_remaining := 0\<rparr>)\<rparr>)"
    using ex_run by blast
  from s two act ok a b c d ex_run show ?thesis
    by (intro conjI)
qed

text \<open>
  C1 as stated does not hold. A response with a success status whose body is \<^verbatim>\<open>null\<close> is
  not a failure in the sense of the claim (the request was not rejected, the status is a
  success, the body is valid JSON), yet \<^verbatim>\<open>request\<close> throws \<^verbatim>\<open>Request failed\<close> and leaves
  \<^verbatim>\<open>calls_remaining\<close> as it was. And with \<^verbatim>\<open>calls_remaining = 2^54\<close> a call that returns
  the body leaves \<^verbatim>\<open>calls_remaining\<close> at \<^verbatim>\<open>2^54\<close>: the decrement of a double rounds
  \<^verbatim>\<open>2^54 - 1\<close> back to \<^verbatim>\<open>2^54\<close>.
\<close>

theorem request_decrement_not_unconditional:
  "returned (request ex_newDate ex_now ex_client
       (replying (Responds True (Inr JNull)) :: string network) ''/api/test'' no_init)
     = Inl (JsError ''Request failed'')
   \<and> after (request ex_newDate ex_now ex_client
       (replying (Responds True (Inr JNull)) :: string network) ''/api/test'' no_init) = ex_client
   \<and> getSession ex_big_client = Some ex_big_session
   \<and> calls_remaining ex_big_session = 18014398509481984
   \<and> returned (request ex_newDate ex_now ex_big_client
       (replying (Responds True (Inr (JTruthy ''protected content'' None None))))
       ''/api/test'' no_init) = Inr ''protected content''
   \<and> getSession (after (request ex_newDate ex_now ex_big_client
       (replying (Responds True (Inr (JTruthy ''protected content'' None None))))
       ''/api/test'' no_init)) = Some ex_big_session"
proof -
  let ?null = "replying (Responds True (Inr JNull)) :: string network"
  let ?ok = "replying (Responds True (Inr (JTruthy ''protected content'' None None)))"
  let ?r = "request ex_newDate ex_now ex_big_client ?ok ''/api/test'' no_init"
  have act: "hasActiveSession ex_newDate ex_now ex_client"
    by (rule ex_session_active) (simp add: ex_client_simps)
  have n: "request ex_newDate ex_now ex_client ?null ''/api/test'' no_init =
     \<lparr>returned = Inl (JsError ''Request failed''), after = ex_client,
      fetches = snd (fetch ex_client ?null ''/api/test''
                  (no_init\<lparr>headers := (headers no_init)(''X-Session-Token'' \<mapsto> ''test-token-123'')\<rparr>))\<rparr>"
    by (simp add: request_unfold Let_def ex_client_simps act fetch_def replying_def
          or_else_def)
  have ok: "returned ?r = Inr ''protected content''"
    by (rule request_succeeds[where tok = "''test-token-123''" and e = None and d = None])
       (simp_all add: ex_big_client_simps replying_def)
  from request_returns[OF ok]
  have "after ?r = ex_big_client\<lparr>currentSession :=
            Some (ex_big_session\<lparr>calls_remaining := js_decrement (calls_remaining ex_big_session)\<rparr>)\<rparr>"
    by (auto simp: ex_big_client_simps)
  also have "js_decrement (calls_remaining ex_big_session) = calls_remaining ex_big_session"
    by (simp add: ex_big_session_def js_decrement_2_54)
  finally have a: "getSession (after ?r) = Some ex_big_session"
    by (simp add: getSession_def)
  have g: "getSession ex_big_client = Some ex_big_session"
    by (simp add: getSession_def ex_big_client_simps)
  have c: "calls_remaining ex_big_session = 18014398509481984"
    by (simp add: ex_big_session_def)
  from n ok a g c show ?thesis
    by simp
qed

section \<open>Building and sending the payment transaction\<close>

lemma createPaymentTransaction_cases:
  "createPaymentTransaction lib payer params =
     (case new_PublicKey lib (recipientAddress params) of
        Inl e \<Rightarrow> (Inl e, [])
      | Inr toPubkey \<Rightarrow>
          (case SystemProgram_transfer lib payer toPubkey (amountLamports params) of
             Inl e \<Rightarrow> (Inl e, [])
           | Inr transfer \<Rightarrow>
               (case getLatestBlockhash lib of
                  Inl e \<Rightarrow> (Inl e, [GetLatestBlockhash])
                | Inr blockhash \<Rightarrow>
                    (Inr \<lparr>instructions = [transfer, MemoInstruction (memo params) [payer]],
                          recentBlockhash = Some blockhash, feePayer = Some payer\<rparr>,
                     [GetLatestBlockhash]))))"
  by (simp add: createPaymentTransaction_def io_bind_def io_return_def Let_def add_def
        new_Transaction_def split: sum.splits)

lemma ex_transfer_simps:
  "ex_transfer a b (Finite 1000000000) = Inr (TransferInstruction a b 1000000000)"
  "ex_transfer a b (Finite (- 1)) = Inl (JsError ''amount is not an unsigned 64-bit integer'')"
  by (simp_all add: ex_transfer_def)

text \<open>
  C7, as amended. For every payer key and every parameter set whose recipient address the
  library accepts and whose amount the library's \<^verbatim>\<open>SystemProgram.transfer\<close> accepts,
  \<^verbatim>\<open>createPaymentTransaction\<close> queries the blockhash once, and when that query answers it
  returns a transaction with exactly two instructions in this order: the transfer
  instruction the library built from the payer, the recipient key and the given amount,
  then the memo instruction with the memo text, signed by the payer; the fee payer is the
  payer and the recent blockhash is the answer. When the query fails, the call fails with
  the error of the query. For an amount the library rejects, the call fails with the
  library's error and makes no query. For a recipient address the library rejects, the
  call fails with the library's error and makes no query. Whenever a transaction is
  returned, it has these two instructions.
\<close>

theorem createPaymentTransaction_builds:
  "(\<forall>toPubkey transfer blockhash.
       new_PublicKey lib (recipientAddress params) = Inr toPubkey
       \<and> SystemProgram_transfer lib payer toPubkey (amountLamports params) = Inr transfer
       \<and> getLatestBlockhash lib = Inr blockhash \<longrightarrow>
       createPaymentTransaction lib payer params =
         (Inr \<lparr>instructions = [transfer, MemoInstruction (memo params) [payer]],
               recentBlockhash = Some blockhash, feePayer = Some payer\<rparr>,
          [GetLatestBlockhash]))
   \<and> (\<forall>toPubkey e.
       new_PublicKey lib (recipientAddress params) = Inr toPubkey
       \<and> SystemProgram_transfer lib payer toPubkey (amountLamports params) = Inl e \<longrightarrow>
       createPaymentTransaction lib payer params = (Inl e, []))
   \<and> (\<forall>toPubkey transfer e.
       new_PublicKey lib (recipientAddress params) = Inr toPubkey
       \<and> SystemProgram_transfer lib payer toPubkey (amountLamports params) = Inr transfer
       \<and> getLatestBlockhash lib = Inl e \<longrightarrow>
       createPaymentTransaction lib payer params = (Inl e, [GetLatestBlockhash]))
   \<and> (\<forall>e.
       new_PublicKey lib (recipientAddress params) = Inl e \<longrightarrow>
       createPaymentTransaction lib payer params = (Inl e, []))
   \<and> (\<forall>transaction made.
       createPaymentTransaction lib payer params = (Inr transaction, made) \<longrightarrow>
       (\<exists>toPubkey transfer.
          new_PublicKey lib (recipientAddress params) = Inr toPubkey
        \<and> SystemProgram_transfer lib payer toPubkey (amountLamports params) = Inr transfer
        \<and> instructions transaction = [transfer, MemoInstruction (memo params) [payer]]))"
  by (auto simp: createPaymentTransaction_cases split: sum.splits)

text \<open>
  The amended C7 on the parameters of the tests: a valid address and one SOL give the two
  instructions, the blockhash and the fee payer after one query; the address
  \<^verbatim>\<open>invalid-address\<close> fails without a query.
\<close>

theorem createPaymentTransaction_builds_witness:
  "new_PublicKey ex_web3 (recipientAddress ex_params) = Inr ''4Nd1mYQzvgV8Vr3Z3nYb7sT9eX5cW2uK1pQ6aR8bH7jL''
   \<and> SystemProgram_transfer ex_web3 ''payer-key'' ''4Nd1mYQzvgV8Vr3Z3nYb7sT9eX5cW2uK1pQ6aR8bH7jL''
        (amountLamports ex_params)
       = Inr (TransferInstruction ''payer-key'' ''4Nd1mYQzvgV8Vr3Z3nYb7sT9eX5cW2uK1pQ6aR8bH7jL'' 1000000000)
   \<and> getLatestBlockhash ex_web3 = Inr ''blockhash-1''
   \<and> createPaymentTransaction ex_web3 ''payer-key'' ex_params =
        (Inr \<lparr>instructions =
                [TransferInstruction ''payer-key'' ''4Nd1mYQzvgV8Vr3Z3nYb7sT9eX5cW2uK1pQ6aR8bH7jL'' 1000000000,
                 MemoInstruction ''payment-ref-123'' [''payer-key'']],
              recentBlockhash = Some ''blockhash-1'', feePayer = Some ''payer-key''\<rparr>,
         [GetLatestBlockhash])
   \<and> new_PublicKey ex_web3 (recipientAddress ex_bad_params) = Inl (JsError ''Invalid public key input'')
   \<and> createPaymentTransaction ex_web3 ''payer-key'' ex_bad_params =
        (Inl (JsError ''Invalid public key input''), [])"
proof -
  have k: "new_PublicKey ex_web3 (recipientAddress ex_params) = Inr ''4Nd1mYQzvgV8Vr3Z3nYb7sT9eX5cW2uK1pQ6aR8bH7jL''"
    by (simp add: ex_web3_def ex_params_def ex_PublicKey_def)
  have t: "SystemProgram_transfer ex_web3 ''payer-key'' ''4Nd1mYQzvgV8Vr3Z3nYb7sT9eX5cW2uK1pQ6aR8bH7jL''
             (amountLamports ex_params)
           = Inr (TransferInstruction ''payer-key'' ''4Nd1mYQzvgV8Vr3Z3nYb7sT9eX5cW2uK1pQ6aR8bH7jL'' 1000000000)"
    by (simp add: ex_web3_def ex_params_def ex_transfer_simps)
  have b: "getLatestBlockhash ex_web3 = Inr ''blockhash-1''"
    by (simp add: ex_web3_def)
  have bad: "new_PublicKey ex_web3 (recipientAddress ex_bad_params) = Inl (JsError ''Invalid public key input'')"
    by (simp add: ex_web3_def ex_bad_params_def ex_PublicKey_def)
  from createPaymentTransaction_builds[of ex_web3 ex_params "''payer-key''"] k t b
  have "createPaymentTransaction ex_web3 ''payer-key'' ex_params =
         (Inr \<lparr>instructions =
                 [TransferInstruction ''payer-key'' ''4Nd1mYQzvgV8Vr3Z3nYb7sT9eX5cW2uK1pQ6aR8bH7jL'' 1000000000,
                  MemoInstruction (memo ex_params) [''payer-key'']],
               recentBlockhash = Some ''blockhash-1'', feePayer = Some ''payer-key''\<rparr>,
          [GetLatestBlockhash])"
    by blast
  moreover from createPaymentTransaction_builds[of ex_web3 ex_bad_params "''payer-key''"] bad
  have "createPaymentTransaction ex_web3 ''payer-key'' ex_bad_params =
        (Inl (JsError ''Invalid public key input''), [])"
    by blast
  ultimately show ?thesis
    using k t b bad by (simp add: ex_params_def)
qed

text \<open>
  C7 as stated does not hold: with a recipient address the library accepts and a node
  that does not answer the blockhash query, no transaction is returned; the call fails
  after the query. And with a recipient address the library accepts, a node that answers
  and the amount \<^verbatim>\<open>-1\<close>, which a library that encodes the amount as an unsigned 64-bit
  integer rejects, no transaction is returned either; the call fails before the query.
\<close>

theorem createPaymentTransaction_not_returned:
  "new_PublicKey ex_web3_offline (recipientAddress ex_params) = Inr ''4Nd1mYQzvgV8Vr3Z3nYb7sT9eX5cW2uK1pQ6aR8bH7jL''
   \<and> createPaymentTransaction ex_web3_offline ''payer-key'' ex_params =
        (Inl (JsError ''failed to get recent blockhash''), [GetLatestBlockhash])
   \<and> new_PublicKey ex_web3 (recipientAddress ex_negative_params) = Inr ''4Nd1mYQzvgV8Vr3Z3nYb7sT9eX5cW2uK1pQ6aR8bH7jL''
   \<and> amountLamports ex_negative_params = Finite (- 1)
   \<and> getLatestBlockhash ex_web3 = Inr ''blockhash-1''
   \<and> createPaymentTransaction ex_web3 ''payer-key'' ex_negative_params =
        (Inl (JsError ''amount is not an unsigned 64-bit integer''), [])"
  by (simp add: createPaymentTransaction_cases ex_web3_offline_def ex_web3_def ex_params_def
        ex_negative_params_def ex_PublicKey_def ex_transfer_simps)

lemma sendPayment_cases:
  "sendPayment lib keypair params =
     (case createPaymentTransaction lib (publicKey keypair) params of
        (Inl e, made) \<Rightarrow>
          (Inr \<lparr>success = False, txHash = None, failure = Some (caught_message e ''Payment failed'')\<rparr>, made)
      | (Inr transaction, made) \<Rightarrow>
          (case sendAndConfirmTransaction lib transaction [keypair] of
             Inl e \<Rightarrow>
               (Inr \<lparr>success = False, txHash = None,
                     failure = Some (caught_message e ''Payment failed'')\<rparr>,
                made @ [SendAndConfirmTransaction transaction [keypair]])
           | Inr hash \<Rightarrow>
               (Inr \<lparr>success = True, txHash = Some hash, failure = None\<rparr>,
                made @ [SendAndConfirmTransaction transaction [keypair]])))"
  by (simp add: sendPayment_def try_catch_def io_bind_def io_return_def
        split: prod.splits sum.splits)

text \<open>
  C8. \<^verbatim>\<open>sendPayment\<close> never throws: for every library behaviour, keypair and parameter set
  it returns a result. In the result exactly one of \<^verbatim>\<open>txHash\<close> and the failure message
  (the field \<^verbatim>\<open>error\<close> of the source, named \<^verbatim>\<open>failure\<close> here) is present, and \<^verbatim>\<open>success\<close>
  says which. An error thrown while building the transaction (malformed address, failed
  blockhash query) or while signing and submitting it becomes the failure result with the
  message of the error; a submission that returns a signature becomes the success result
  with that signature.
\<close>

theorem sendPayment_result_shape:
  "(\<exists>result. fst (sendPayment lib keypair params) = Inr result
     \<and> (txHash result \<noteq> None) \<noteq> (failure result \<noteq> None)
     \<and> success result = (txHash result \<noteq> None))
   \<and> (\<forall>e made.
        createPaymentTransaction lib (publicKey keypair) params = (Inl e, made) \<longrightarrow>
        sendPayment lib keypair params =
          (Inr \<lparr>success = False, txHash = None,
                failure = Some (caught_message e ''Payment failed'')\<rparr>, made))
   \<and> (\<forall>transaction made e.
        createPaymentTransaction lib (publicKey keypair) params = (Inr transaction, made)
        \<and> sendAndConfirmTransaction lib transaction [keypair] = Inl e \<longrightarrow>
        sendPayment lib keypair params =
          (Inr \<lparr>success = False, txHash = None,
                failure = Some (caught_message e ''Payment failed'')\<rparr>,
           made @ [SendAndConfirmTransaction transaction [keypair]]))
   \<and> (\<forall>transaction made hash.
        createPaymentTransaction lib (publicKey keypair) params = (Inr transaction, made)
        \<and> sendAndConfirmTransaction lib transaction [keypair] = Inr hash \<longrightarrow>
        sendPayment lib keypair params =
          (Inr \<lparr>success = True, txHash = Some hash, failure = None\<rparr>,
           made @ [SendAndConfirmTransaction transaction [keypair]]))"
  by (auto simp: sendPayment_cases split: prod.splits sum.splits)

text \<open>
  C8 on the parameters of the tests: a node that answers gives the success result with the
  signature; a node that does not answer the blockhash query and a malformed address give
  the failure result with the message of the error.
\<close>

theorem sendPayment_result_shape_witness:
  "fst (sendPayment ex_web3 \<lparr>publicKey = ''payer-key'', secretKey = ''secret''\<rparr> ex_params)
     = Inr \<lparr>success = True, txHash = Some ''signature-1'', failure = None\<rparr>
   \<and> sendPayment ex_web3_offline \<lparr>publicKey = ''payer-key'', secretKey = ''secret''\<rparr> ex_params
     = (Inr \<lparr>success = False, txHash = None, failure = Some ''failed to get recent blockhash''\<rparr>,
        [GetLatestBlockhash])
   \<and> sendPayment ex_web3 \<lparr>publicKey = ''payer-key'', secretKey = ''secret''\<rparr> ex_bad_params
     = (Inr \<lparr>success = False, txHash = None, failure = Some ''Invalid public key input''\<rparr>, [])"
proof -
  let ?kp = "\<lparr>publicKey = ''payer-key'', secretKey = ''secret''\<rparr>"
  let ?tx = "\<lparr>instructions =
                [TransferInstruction ''payer-key'' ''4Nd1mYQzvgV8Vr3Z3nYb7sT9eX5cW2uK1pQ6aR8bH7jL'' 1000000000,
                 MemoInstruction ''payment-ref-123'' [''payer-key'']],
              recentBlockhash = Some ''blockhash-1'', feePayer = Some ''payer-key''\<rparr>"
  have built: "createPaymentTransaction ex_web3 (publicKey ?kp) ex_params = (Inr ?tx, [GetLatestBlockhash])"
    by (simp add: createPaymentTransaction_cases ex_web3_def ex_params_def ex_PublicKey_def ex_transfer_simps)
  have sent: "sendAndConfirmTransaction ex_web3 ?tx [?kp] = Inr ''signature-1''"
    by (simp add: ex_web3_def)
  have offline: "createPaymentTransaction ex_web3_offline (publicKey ?kp) ex_params
                   = (Inl (JsError ''failed to get recent blockhash''), [GetLatestBlockhash])"
    by (simp add: createPaymentTransaction_cases ex_web3_offline_def ex_params_def ex_PublicKey_def
          ex_transfer_simps)
  have bad: "createPaymentTransaction ex_web3 (publicKey ?kp) ex_bad_params
                   = (Inl (JsError ''Invalid public key input''), [])"
    by (simp add: createPaymentTransaction_cases ex_web3_def ex_bad_params_def ex_PublicKey_def)
  from sendPayment_result_shape[of ex_web3 ?kp ex_params] built sent
  have "sendPayment ex_web3 ?kp ex_params =
          (Inr \<lparr>success = True, txHash = Some ''signature-1'', failure = None\<rparr>,
           [GetLatestBlockhash] @ [SendAndConfirmTransaction ?tx [?kp]])"
    by blast
  moreover from sendPayment_result_shape[of ex_web3_offline ?kp ex_params] offline
  have "sendPayment ex_web3_offline ?kp ex_params =
          (Inr \<lparr>success = False, txHash = None,
                failure = Some (caught_message (JsError ''failed to get recent blockhash'') ''Payment failed'')\<rparr>,
           [GetLatestBlockhash])"
    by blast
  moreover from sendPayment_result_shape[of ex_web3 ?kp ex_bad_params] bad
  have "sendPayment ex_web3 ?kp ex_bad_params =
          (Inr \<lparr>success = False, txHash = None,
                failure = Some (caught_message (JsError ''Invalid public key input'') ''Payment failed'')\<rparr>,
           [])"
    by blast
  ultimately show ?thesis
    by (simp add: caught_message_def)
qed

section \<open>Waiting for confirmation\<close>

lemma waitLoop_goes_on:
  "goes_on Date_now g timeout i \<Longrightarrow>
     waitLoop Date_now g timeout i = waitLoop Date_now g timeout (Suc i)"
  by (subst waitLoop.simps) (simp add: goes_on_def split: status_query.splits)

lemma waitLoop_went_on:
  "went_on Date_now g timeout k \<Longrightarrow>
     waitLoop Date_now g timeout 0 = waitLoop Date_now g timeout k"
  by (induction k) (simp_all add: waitLoop_goes_on)

lemma went_on_iff:
  "went_on Date_now g timeout k \<longleftrightarrow> (\<forall>j<k. goes_on Date_now g timeout j)"
  by (induction k) (auto simp: less_Suc_eq)

lemma waitLoop_forever:
  assumes "waitLoop Date_now g timeout i = Some y"
  shows "\<exists>k. \<not> goes_on Date_now g timeout k"
proof (rule waitLoop.raw_induct[where P = "\<lambda>Date_now g timeout i y. \<exists>k. \<not> goes_on Date_now g timeout k",
        OF _ assms], goal_cases)
  case (1 loop clock source span j z)
  show ?case
  proof (rule ccontr)
    assume all: "\<not> (\<exists>k. \<not> goes_on clock source span k)"
    then have "goes_on clock source span j"
      by simp
    with 1(2) have "loop clock source span (Suc j) = Some z"
      by (simp add: goes_on_def split: status_query.splits if_splits)
    from 1(1)[OF this] all show False
      by simp
  qed
qed

lemma waitLoop_never_returns:
  assumes "\<forall>k. goes_on Date_now g timeout k"
  shows "waitLoop Date_now g timeout i = None"
proof (cases "waitLoop Date_now g timeout i")
  case None
  then show ?thesis .
next
  case (Some y)
  from waitLoop_forever[OF this] assms show ?thesis
    by simp
qed

lemma waitLoop_stops:
  assumes "went_on Date_now g timeout k"
  shows "\<not> in_time Date_now timeout k \<Longrightarrow>
           waitLoop Date_now g timeout 0 = Some \<lparr>outcome = Inr False, queries = k\<rparr>"
    and "in_time Date_now timeout k \<Longrightarrow> g k = Resolved st \<Longrightarrow> is_confirmed st \<Longrightarrow>
           waitLoop Date_now g timeout 0 = Some \<lparr>outcome = Inr True, queries = Suc k\<rparr>"
    and "in_time Date_now timeout k \<Longrightarrow> g k = Rejected e \<Longrightarrow>
           waitLoop Date_now g timeout 0 = Some \<lparr>outcome = Inl e, queries = Suc k\<rparr>"
    and "in_time Date_now timeout k \<Longrightarrow> g k = NeverSettles \<Longrightarrow>
           waitLoop Date_now g timeout 0 = None"
proof -
  have shift: "waitLoop Date_now g timeout 0 = waitLoop Date_now g timeout k"
    using assms by (rule waitLoop_went_on)
  show "\<not> in_time Date_now timeout k \<Longrightarrow>
           waitLoop Date_now g timeout 0 = Some \<lparr>outcome = Inr False, queries = k\<rparr>"
    unfolding shift by (subst waitLoop.simps) simp
  show "in_time Date_now timeout k \<Longrightarrow> g k = Resolved st \<Longrightarrow> is_confirmed st \<Longrightarrow>
           waitLoop Date_now g timeout 0 = Some \<lparr>outcome = Inr True, queries = Suc k\<rparr>"
    unfolding shift by (subst waitLoop.simps) simp
  show "in_time Date_now timeout k \<Longrightarrow> g k = Rejected e \<Longrightarrow>
           waitLoop Date_now g timeout 0 = Some \<lparr>outcome = Inl e, queries = Suc k\<rparr>"
    unfolding shift by (subst waitLoop.simps) simp
  show "in_time Date_now timeout k \<Longrightarrow> g k = NeverSettles \<Longrightarrow>
           waitLoop Date_now g timeout 0 = None"
    unfolding shift by (subst waitLoop.simps) simp
qed

lemma waitLoop_returned:
  assumes "waitLoop Date_now g timeout 0 = Some r"
  shows "\<exists>k. went_on Date_now g timeout k
           \<and> (\<not> in_time Date_now timeout k \<and> r = \<lparr>outcome = Inr False, queries = k\<rparr>
              \<or> in_time Date_now timeout k
                \<and> (\<exists>st. g k = Resolved st \<and> is_confirmed st)
                \<and> r = \<lparr>outcome = Inr True, queries = Suc k\<rparr>
              \<or> in_time Date_now timeout k
                \<and> (\<exists>e. g k = Rejected e \<and> r = \<lparr>outcome = Inl e, queries = Suc k\<rparr>))"
proof -
  from waitLoop_forever[OF assms] have "\<exists>k. \<not> goes_on Date_now g timeout k" .
  then obtain k where stop: "\<not> goes_on Date_now g timeout k"
    and before: "\<forall>j<k. goes_on Date_now g timeout j"
    using exists_least_iff[of "\<lambda>k. \<not> goes_on Date_now g timeout k"] by auto
  from before have w: "went_on Date_now g timeout k"
    by (simp add: went_on_iff)
  show ?thesis
  proof (cases "in_time Date_now timeout k")
    case False
    from waitLoop_stops(1)[OF w False] assms have "r = \<lparr>outcome = Inr False, queries = k\<rparr>"
      by simp
    with w False show ?thesis by blast
  next
    case True
    show ?thesis
    proof (cases "g k")
      case NeverSettles
      from waitLoop_stops(4)[OF w True NeverSettles] assms show ?thesis by simp
    next
      case (Rejected e)
      from waitLoop_stops(3)[OF w True Rejected] assms have "r = \<lparr>outcome = Inl e, queries = Suc k\<rparr>"
        by simp
      with w True Rejected show ?thesis by blast
    next
      case (Resolved st)
      with stop True have c: "is_confirmed st"
        by (simp add: goes_on_def)
      from waitLoop_stops(2)[OF w True Resolved c] assms have "r = \<lparr>outcome = Inr True, queries = Suc k\<rparr>"
        by simp
      with w True Resolved c show ?thesis by blast
    qed
  qed
qed

lemma ex_clock_in_time:
  "in_time ex_clock (Finite 2000) 0" "in_time ex_clock (Finite 2000) (Suc 0)"
  "\<not> in_time ex_clock (Finite 2000) (Suc (Suc 0))"
  "in_time ex_clock (Finite 30000) 0" "in_time ex_clock (Finite 30000) (Suc 0)"
  "in_time ex_clock (Finite 30000) (Suc (Suc 0))"
  "in_time ex_clock PosInfinity k"
  by (simp_all add: in_time_def ex_clock_def)

text \<open>
  C9, as amended. Take a transaction hash and a timeout (30000 when left out), any
  readings of the clock and any behaviour of the status queries. Say that the loop went on
  for \<^verbatim>\<open>k\<close> turns when at each of the first \<^verbatim>\<open>k\<close> loop tests the elapsed time was below the
  timeout and the query that followed resolved with a status that is neither confirmed nor
  finalized. Then \<^verbatim>\<open>waitForConfirmation\<close> returns true as soon as a polled status is
  confirmed or finalized: after \<^verbatim>\<open>k\<close> such turns, when the next test passes and the next
  query reports one of the two. It returns false, without raising, at the first loop test
  that finds the elapsed time not below the timeout, the loop having gone on until then.
  A status query that rejects makes the call fail with that error. The call does not
  return when a status query never settles, nor when the loop goes on at every turn (no
  query confirms, rejects or stays open, and no loop test finds the timeout reached).
  Every return of the call is one of the three above.
\<close>

theorem waitForConfirmation_polls:
  assumes "allowed = (case timeout of None \<Rightarrow> Finite 30000 | Some given \<Rightarrow> given)"
    and "polls = getSignatureStatus hash"
    and "result = waitForConfirmation Date_now getSignatureStatus hash timeout"
  shows "(\<forall>k st. went_on Date_now polls allowed k \<and> in_time Date_now allowed k
            \<and> polls k = Resolved st \<and> is_confirmed st \<longrightarrow>
            result = Some \<lparr>outcome = Inr True, queries = Suc k\<rparr>)
       \<and> (\<forall>k. went_on Date_now polls allowed k \<and> \<not> in_time Date_now allowed k \<longrightarrow>
            result = Some \<lparr>outcome = Inr False, queries = k\<rparr>)
       \<and> (\<forall>k e. went_on Date_now polls allowed k \<and> in_time Date_now allowed k
            \<and> polls k = Rejected e \<longrightarrow>
            result = Some \<lparr>outcome = Inl e, queries = Suc k\<rparr>)
       \<and> (\<forall>k. went_on Date_now polls allowed k \<and> in_time Date_now allowed k
            \<and> polls k = NeverSettles \<longrightarrow>
            result = None)
       \<and> ((\<forall>k. goes_on Date_now polls allowed k) \<longrightarrow> result = None)
       \<and> (\<forall>r. result = Some r \<longrightarrow>
            (\<exists>k. went_on Date_now polls allowed k
               \<and> (\<not> in_time Date_now allowed k \<and> r = \<lparr>outcome = Inr False, queries = k\<rparr>
                  \<or> in_time Date_now allowed k
                    \<and> (\<exists>st. polls k = Resolved st \<and> is_confirmed st)
                    \<and> r = \<lparr>outcome = Inr True, queries = Suc k\<rparr>
                  \<or> in_time Date_now allowed k
                    \<and> (\<exists>e. polls k = Rejected e \<and> r = \<lparr>outcome = Inl e, queries = Suc k\<rparr>))))"
proof -
  have r: "result = waitLoop Date_now polls allowed 0"
    by (simp add: assms waitForConfirmation_def)
  have forever: "result = None" if "\<forall>k. goes_on Date_now polls allowed k"
    using that by (simp add: r waitLoop_never_returns)
  show ?thesis
    unfolding r
  proof (intro conjI allI impI)
    fix k st
    assume "went_on Date_now polls allowed k \<and> in_time Date_now allowed k
            \<and> polls k = Resolved st \<and> is_confirmed st"
    then show "waitLoop Date_now polls allowed 0 = Some \<lparr>outcome = Inr True, queries = Suc k\<rparr>"
      using waitLoop_stops(2)[of Date_now polls allowed k st] by simp
  next
    fix k
    assume "went_on Date_now polls allowed k \<and> \<not> in_time Date_now allowed k"
    then show "waitLoop Date_now polls allowed 0 = Some \<lparr>outcome = Inr False, queries = k\<rparr>"
      using waitLoop_stops(1)[of Date_now polls allowed k] by simp
  next
    fix k e
    assume "went_on Date_now polls allowed k \<and> in_time Date_now allowed k \<and> polls k = Rejected e"
    then show "waitLoop Date_now polls allowed 0 = Some \<lparr>outcome = Inl e, queries = Suc k\<rparr>"
      using waitLoop_stops(3)[of Date_now polls allowed k e] by simp
  next
    fix k
    assume "went_on Date_now polls allowed k \<and> in_time Date_now allowed k \<and> polls k = NeverSettles"
    then show "waitLoop Date_now polls allowed 0 = None"
      using waitLoop_stops(4)[of Date_now polls allowed k] by simp
  next
    assume "\<forall>k. goes_on Date_now polls allowed k"
    from forever[OF this] r show "waitLoop Date_now polls allowed 0 = None"
      by simp
  next
    fix r'
    assume "waitLoop Date_now polls allowed 0 = Some r'"
    then show "\<exists>k. went_on Date_now polls allowed k
               \<and> (\<not> in_time Date_now allowed k \<and> r' = \<lparr>outcome = Inr False, queries = k\<rparr>
                  \<or> in_time Date_now allowed k
                    \<and> (\<exists>st. polls k = Resolved st \<and> is_confirmed st)
                    \<and> r' = \<lparr>outcome = Inr True, queries = Suc k\<rparr>
                  \<or> in_time Date_now allowed k
                    \<and> (\<exists>e. polls k = Rejected e \<and> r' = \<lparr>outcome = Inl e, queries = Suc k\<rparr>))"
      by (rule waitLoop_returned)
  qed
qed

text \<open>
  The amended C9 on a clock that advances 1020 ms per turn: against a node that always
  reports \<^verbatim>\<open>processed\<close>, a timeout of 2000 ms gives false after two queries (elapsed 0,
  1020, then 2040); against a node that reports \<^verbatim>\<open>confirmed\<close> at the third query, the
  default timeout gives true after three queries.
\<close>

theorem waitForConfirmation_polls_witness:
  "in_time ex_clock (Finite 2000) 0 \<and> in_time ex_clock (Finite 2000) 1
   \<and> \<not> in_time ex_clock (Finite 2000) 2
   \<and> ex_never ''hash'' 0 = Resolved (Some Processed) \<and> ex_never ''hash'' 1 = Resolved (Some Processed)
   \<and> waitForConfirmation ex_clock ex_never ''hash'' (Some (Finite 2000))
       = Some \<lparr>outcome = Inr False, queries = 2\<rparr>
   \<and> ex_third ''hash'' 0 = Resolved None \<and> ex_third ''hash'' 1 = Resolved None
   \<and> ex_third ''hash'' 2 = Resolved (Some Confirmed)
   \<and> waitForConfirmation ex_clock ex_third ''hash'' None
       = Some \<lparr>outcome = Inr True, queries = 3\<rparr>"
proof -
  note n = waitForConfirmation_polls[where timeout = "Some (Finite 2000)"
             and getSignatureStatus = ex_never and hash = "''hash''" and Date_now = ex_clock,
             OF refl refl refl]
  note t = waitForConfirmation_polls[where timeout = None
             and getSignatureStatus = ex_third and hash = "''hash''" and Date_now = ex_clock,
             OF refl refl refl]
  have wn: "went_on ex_clock (ex_never ''hash'') (Finite 2000) (Suc (Suc 0))"
    by (simp add: goes_on_def ex_clock_in_time ex_never_def is_confirmed_def)
  from n have "\<forall>k. went_on ex_clock (ex_never ''hash'') (Finite 2000) k
            \<and> \<not> in_time ex_clock (Finite 2000) k \<longrightarrow>
            waitForConfirmation ex_clock ex_never ''hash'' (Some (Finite 2000))
              = Some \<lparr>outcome = Inr False, queries = k\<rparr>"
    by simp
  with wn ex_clock_in_time(3)
  have a: "waitForConfirmation ex_clock ex_never ''hash'' (Some (Finite 2000))
              = Some \<lparr>outcome = Inr False, queries = Suc (Suc 0)\<rparr>"
    by blast
  have wt: "went_on ex_clock (ex_third ''hash'') (Finite 30000) (Suc (Suc 0))"
    by (simp add: goes_on_def ex_clock_in_time ex_third_def is_confirmed_def)
  have ct: "ex_third ''hash'' (Suc (Suc 0)) = Resolved (Some Confirmed) \<and> is_confirmed (Some Confirmed)"
    by (simp add: ex_third_def is_confirmed_def)
  from t have "\<forall>k st. went_on ex_clock (ex_third ''hash'') (Finite 30000) k
            \<and> in_time ex_clock (Finite 30000) k
            \<and> ex_third ''hash'' k = Resolved st \<and> is_confirmed st \<longrightarrow>
            waitForConfirmation ex_clock ex_third ''hash'' None
              = Some \<lparr>outcome = Inr True, queries = Suc k\<rparr>"
    by simp
  with wt ct ex_clock_in_time(6)
  have b: "waitForConfirmation ex_clock ex_third ''hash'' None
              = Some \<lparr>outcome = Inr True, queries = Suc (Suc (Suc 0))\<rparr>"
    by blast
  have c: "in_time ex_clock (Finite 2000) 0 \<and> in_time ex_clock (Finite 2000) 1
   \<and> \<not> in_time ex_clock (Finite 2000) 2"
    by (simp add: in_time_def ex_clock_def)
  have d: "ex_never ''hash'' 0 = Resolved (Some Processed) \<and> ex_never ''hash'' 1 = Resolved (Some Processed)
     \<and> ex_third ''hash'' 0 = Resolved None \<and> ex_third ''hash'' 1 = Resolved None
     \<and> ex_third ''hash'' 2 = Resolved (Some Confirmed)"
    by (simp add: ex_never_def ex_third_def)
  from a b c d show ?thesis
    by (simp add: numeral_2_eq_2 numeral_3_eq_3)
qed

text \<open>
  C9 as stated does not hold. Against a node whose status query rejects, the call with a
  timeout of 2000 ms throws at the first query instead of returning false. Against a node
  whose status query never settles, the same call never returns. And with the timeout
  \<^verbatim>\<open>Infinity\<close>, against a node that always reports \<^verbatim>\<open>processed\<close>, the call never returns
  although every query settles and the clock advances.
\<close>

theorem waitForConfirmation_blocks_or_throws:
  "waitForConfirmation ex_clock ex_unreachable ''hash'' (Some (Finite 2000))
     = Some \<lparr>outcome = Inl (JsError ''failed to get signature status''), queries = 1\<rparr>
   \<and> waitForConfirmation ex_clock ex_silent ''hash'' (Some (Finite 2000)) = None
   \<and> waitForConfirmation ex_clock ex_never ''hash'' (Some PosInfinity) = None"
proof -
  have w: "went_on ex_clock g (Finite 2000) 0" for g
    by simp
  have a: "waitForConfirmation ex_clock ex_unreachable ''hash'' (Some (Finite 2000))
     = Some \<lparr>outcome = Inl (JsError ''failed to get signature status''), queries = 1\<rparr>"
    using waitLoop_stops(3)[OF w ex_clock_in_time(1), of "ex_unreachable ''hash''"
            "JsError ''failed to get signature status''"]
    by (simp add: waitForConfirmation_def ex_unreachable_def)
  have b: "waitForConfirmation ex_clock ex_silent ''hash'' (Some (Finite 2000)) = None"
    using waitLoop_stops(4)[OF w ex_clock_in_time(1), of "ex_silent ''hash''"]
    by (simp add: waitForConfirmation_def ex_silent_def)
  have "\<forall>k. goes_on ex_clock (ex_never ''hash'') PosInfinity k"
    by (simp add: goes_on_def ex_clock_in_time ex_never_def is_confirmed_def)
  then have c: "waitForConfirmation ex_clock ex_never ''hash'' (Some PosInfinity) = None"
    by (simp add: waitForConfirmation_def waitLoop_never_returns)
  from a b c show ?thesis
    by simp
qed

end
